theory Spec2Isabelle
  imports Main
begin

section \<open>Employee upload service: data model\<close>

text \<open>
  The service (\<^verbatim>\<open>main.py\<close>) has two handlers over a relational store with the tables
  \<^verbatim>\<open>companies\<close> and \<^verbatim>\<open>employees\<close>: \<^verbatim>\<open>upload_employees\<close> parses a file into a table
  and persists companies and employees; \<^verbatim>\<open>get_employees\<close> lists the employees with
  the name of their company.

  Exceptions are values. The constructors name the Python exception classes that the
  handlers can meet.
\<close>

datatype exn =
    ValueError
  | OverflowError
  | KeyError
  | IntegrityError
  | OperationalError
  | ValidationError
  | UnicodeDecodeError
  | ParserError

text \<open>
  A cell of the parsed table is a Python value: the missing-value marker of the table
  library (a cell left empty in the file, for which \<^verbatim>\<open>pd.isnull\<close> holds), an integer,
  a float that is not the missing-value marker, or a string. The type \<open>'f\<close> stands for
  the floats; the model fixes nothing about them.
\<close>

datatype 'f cell = NaN | IntCell int | FloatCell 'f | StrCell string

text \<open>
  A table has its column labels and its rows; a row is read by column label
  (\<^verbatim>\<open>row["SALARY"]\<close>). Only labels that passed the column check are ever read.
\<close>

record 'f table =
  columns :: "string list"
  rows :: "(string \<Rightarrow> 'f cell) list"

record upload_file =
  filename :: string
  content :: string

text \<open>
  The library functions the handlers call and whose results the source does not
  determine are parameters of the model: the two table readers and the decoding of the
  file's bytes, Python's \<^verbatim>\<open>int\<close> and \<^verbatim>\<open>float\<close> on strings and on floats, \<^verbatim>\<open>str\<close> on a
  float, and the text the store gives a float written to a text column. A result
  \<open>Inl e\<close> is the exception raised. \<^verbatim>\<open>float\<close> may return the missing-value marker
  (\<open>None\<close>) for a string such as \<^verbatim>\<open>"nan"\<close>. The last parameter is the largest number
  of variables that the store lets one statement bind (32766 in its present releases,
  999 in older ones).
\<close>

record 'f pylib =
  bytes_decode :: "string \<Rightarrow> exn + string"
  pd_read_csv :: "string \<Rightarrow> exn + 'f table"
  pd_read_excel :: "string \<Rightarrow> exn + 'f table"
  int_of_str :: "string \<Rightarrow> exn + int"
  int_of_float :: "'f \<Rightarrow> exn + int"
  float_of_int :: "int \<Rightarrow> exn + 'f"
  float_of_str :: "string \<Rightarrow> exn + 'f option"
  str_of_float :: "'f \<Rightarrow> string"
  sqlite_text_of_float :: "'f \<Rightarrow> string"
  sqlite_max_variables :: nat

subsection \<open>The ORM classes and the store\<close>

text \<open>
  \<^verbatim>\<open>class Company\<close>: an integer primary key and a nullable, unique name.
  \<^verbatim>\<open>class Employee\<close>: an integer primary key, a nullable unique employee number and
  nullable columns otherwise. \<open>None\<close> is SQL \<^verbatim>\<open>NULL\<close>.
\<close>

record company =
  c_id :: int
  c_company_name :: "string option"

record 'f employee =
  e_id :: int
  e_employee_id :: "int option"
  e_first_name :: "string option"
  e_last_name :: "string option"
  e_phone_number :: "string option"
  e_salary :: "'f option"
  e_manager_id :: "int option"
  e_department_id :: "int option"
  e_company_id :: "int option"

text \<open>
  An \<^verbatim>\<open>Employee(...)\<close> object as the upload handler builds it, before the store has
  given it a primary key. The salary is a Python float: \<open>None\<close> is the float NaN.
\<close>

record 'f new_employee =
  n_employee_id :: int
  n_first_name :: string
  n_last_name :: string
  n_phone_number :: string
  n_salary :: "'f option"
  n_manager_id :: "int option"
  n_department_id :: "int option"
  n_company_id :: int

text \<open>The Pydantic schemas \<^verbatim>\<open>UploadResponse\<close> and \<^verbatim>\<open>EmployeeResponse\<close>.\<close>

record upload_response =
  message :: string
  companies_created :: nat
  employees_created :: nat

record 'f employee_response =
  r_employee_id :: int
  r_first_name :: string
  r_last_name :: string
  r_phone_number :: string
  r_salary :: 'f
  r_manager_id :: "int option"
  r_department_id :: "int option"
  r_company_name :: string

text \<open>
  The detail of an \<^verbatim>\<open>HTTPException\<close> is a fixed message, or one of the two f-strings
  that carry the text of the exception caught.
\<close>

datatype detail =
    Msg string
  | ErrorReadingFile exn
  | DatabaseError exn

datatype http_error = HTTPException nat detail

text \<open>
  The store holds the rows of both tables in the order of their primary keys. A
  session works on its own view of the store; \<^verbatim>\<open>commit\<close> makes the view durable,
  \<^verbatim>\<open>rollback\<close> discards it, \<^verbatim>\<open>close\<close> releases the session and leaves what was
  committed.
\<close>

record 'f store =
  companies :: "company list"
  employees :: "'f employee list"

record 'f session =
  committed :: "'f store"
  working :: "'f store"

definition SessionLocal :: "'f store \<Rightarrow> 'f session" where
  "SessionLocal db = \<lparr>committed = db, working = db\<rparr>"

definition commit :: "'f session \<Rightarrow> 'f session" where
  "commit s = s\<lparr>committed := working s\<rparr>"

definition rollback :: "'f session \<Rightarrow> 'f session" where
  "rollback s = s\<lparr>working := committed s\<rparr>"

definition close :: "'f session \<Rightarrow> 'f store" where
  "close s = committed s"

section \<open>The Python conversions\<close>

fun digits_of :: "nat \<Rightarrow> string" where
  "digits_of n =
     (if n < 10 then [''0123456789'' ! n]
      else digits_of (n div 10) @ [''0123456789'' ! (n mod 10)])"

declare digits_of.simps [simp del]

definition str_of_int :: "int \<Rightarrow> string" where
  "str_of_int i = (if i < 0 then CHR ''-'' # digits_of (nat (- i)) else digits_of (nat i))"

definition py_isnull :: "'f cell \<Rightarrow> bool" where
  "py_isnull c \<longleftrightarrow> c = NaN"

text \<open>\<^verbatim>\<open>int(x)\<close>: the float NaN raises \<^verbatim>\<open>ValueError\<close>.\<close>

fun py_int :: "'f pylib \<Rightarrow> 'f cell \<Rightarrow> exn + int" where
  "py_int lib NaN = Inl ValueError"
| "py_int lib (IntCell i) = Inr i"
| "py_int lib (FloatCell f) = int_of_float lib f"
| "py_int lib (StrCell s) = int_of_str lib s"

text \<open>\<^verbatim>\<open>str(x)\<close> never raises.\<close>

fun py_str :: "'f pylib \<Rightarrow> 'f cell \<Rightarrow> string" where
  "py_str lib NaN = ''nan''"
| "py_str lib (IntCell i) = str_of_int i"
| "py_str lib (FloatCell f) = str_of_float lib f"
| "py_str lib (StrCell s) = s"

text \<open>\<^verbatim>\<open>float(x)\<close>: NaN stays NaN (\<open>None\<close>).\<close>

fun py_float :: "'f pylib \<Rightarrow> 'f cell \<Rightarrow> exn + 'f option" where
  "py_float lib NaN = Inr None"
| "py_float lib (IntCell i) =
     (case float_of_int lib i of Inl e \<Rightarrow> Inl e | Inr f \<Rightarrow> Inr (Some f))"
| "py_float lib (FloatCell f) = Inr (Some f)"
| "py_float lib (StrCell s) = float_of_str lib s"

definition endswith :: "string \<Rightarrow> string \<Rightarrow> bool" where
  "endswith s suffix \<longleftrightarrow>
     length suffix \<le> length s \<and> drop (length s - length suffix) s = suffix"

text \<open>
  \<^verbatim>\<open>drop_duplicates().tolist()\<close> keeps the first occurrence of every value, in the
  order of first appearance (\<open>remdups\<close> keeps the last one, hence the two reversals).
\<close>

definition drop_duplicates :: "'a list \<Rightarrow> 'a list" where
  "drop_duplicates xs = rev (remdups (rev xs))"

text \<open>A loop that builds a list and stops at the first exception.\<close>

fun collect :: "('a \<Rightarrow> exn + 'b) \<Rightarrow> 'a list \<Rightarrow> exn + 'b list" where
  "collect f [] = Inr []"
| "collect f (x # xs) =
     (case f x of
        Inl e \<Rightarrow> Inl e
      | Inr y \<Rightarrow> (case collect f xs of Inl e \<Rightarrow> Inl e | Inr ys \<Rightarrow> Inr (y # ys)))"

section \<open>The store's operations\<close>

text \<open>
  A value bound to a statement as an integer must fit the store's 64-bit integers;
  the driver raises \<^verbatim>\<open>OverflowError\<close> otherwise.
\<close>

definition int64 :: "int \<Rightarrow> bool" where
  "int64 i \<longleftrightarrow> - (2 ^ 63) \<le> i \<and> i < 2 ^ 63"

text \<open>
  A cell bound where the text column \<^verbatim>\<open>company_name\<close> is compared or written: a
  string is itself, the missing-value marker is \<^verbatim>\<open>NULL\<close>, a number becomes its text.
\<close>

fun bind_name :: "'f pylib \<Rightarrow> 'f cell \<Rightarrow> exn + string option" where
  "bind_name lib NaN = Inr None"
| "bind_name lib (IntCell i) = (if int64 i then Inr (Some (str_of_int i)) else Inl OverflowError)"
| "bind_name lib (FloatCell f) = Inr (Some (sqlite_text_of_float lib f))"
| "bind_name lib (StrCell s) = Inr (Some s)"

text \<open>
  A new row gets the primary key after the largest one in the table, and 1 in an
  empty table, as the store assigns it while the largest key is below the largest
  64-bit integer.
\<close>

fun next_id :: "int list \<Rightarrow> int" where
  "next_id [] = 1"
| "next_id (i # ids) = fold max ids i + 1"

text \<open>
  \<^verbatim>\<open>session.query(Company).filter(Company.company_name.in_(names)).all()\<close>: the
  statement has one variable for each name of the list, and the store refuses to
  prepare a statement with more variables than its limit (\<^verbatim>\<open>OperationalError\<close>: too
  many SQL variables). Otherwise the names are bound and the result is the rows whose
  name is not \<^verbatim>\<open>NULL\<close> and equals one of the bound values.
\<close>

definition query_companies_in ::
  "'f pylib \<Rightarrow> 'f cell list \<Rightarrow> 'f session \<Rightarrow> exn + company list" where
  "query_companies_in lib names s =
     (if sqlite_max_variables lib < length names then Inl OperationalError
      else
        (case collect (bind_name lib) names of
           Inl e \<Rightarrow> Inl e
         | Inr vs \<Rightarrow>
             Inr (filter (\<lambda>c. c_company_name c \<noteq> None \<and> c_company_name c \<in> set vs)
                    (companies (working s)))))"

text \<open>
  One \<^verbatim>\<open>INSERT\<close> into \<^verbatim>\<open>companies\<close>: the unique constraint on \<^verbatim>\<open>company_name\<close>
  rejects a name that a row already has (\<^verbatim>\<open>NULL\<close> never conflicts).
\<close>

definition insert_company :: "string option \<Rightarrow> 'f session \<Rightarrow> (exn + unit) \<times> 'f session" where
  "insert_company v s =
     (let cs = companies (working s) in
      if v \<noteq> None \<and> v \<in> set (map c_company_name cs) then (Inl IntegrityError, s)
      else (Inr (),
            s\<lparr>working := (working s)\<lparr>companies :=
                 cs @ [\<lparr>c_id = next_id (map c_id cs), c_company_name = v\<rparr>]\<rparr>\<rparr>))"

text \<open>
  \<^verbatim>\<open>session.bulk_save_objects(new_companies)\<close>; a new \<^verbatim>\<open>Company\<close> object is given by
  its \<^verbatim>\<open>company_name\<close>, the raw cell.
\<close>

fun bulk_save_companies ::
  "'f pylib \<Rightarrow> 'f cell list \<Rightarrow> 'f session \<Rightarrow> (exn + unit) \<times> 'f session" where
  "bulk_save_companies lib [] s = (Inr (), s)"
| "bulk_save_companies lib (name # names) s =
     (case bind_name lib name of
        Inl e \<Rightarrow> (Inl e, s)
      | Inr v \<Rightarrow>
          (case insert_company v s of
             (Inl e, s') \<Rightarrow> (Inl e, s')
           | (Inr u, s') \<Rightarrow> bulk_save_companies lib names s'))"

text \<open>The row of an \<^verbatim>\<open>Employee\<close> object under the primary key \<open>i\<close>.\<close>

definition employee_row :: "int \<Rightarrow> 'f new_employee \<Rightarrow> 'f employee" where
  "employee_row i n =
     \<lparr>e_id = i,
      e_employee_id = Some (n_employee_id n),
      e_first_name = Some (n_first_name n),
      e_last_name = Some (n_last_name n),
      e_phone_number = Some (n_phone_number n),
      e_salary = n_salary n,
      e_manager_id = n_manager_id n,
      e_department_id = n_department_id n,
      e_company_id = Some (n_company_id n)\<rparr>"

text \<open>
  One \<^verbatim>\<open>INSERT\<close> into \<^verbatim>\<open>employees\<close>: the integers must fit, and the unique constraint
  on \<^verbatim>\<open>employee_id\<close> rejects a number that a row already has.
\<close>

definition insert_employee ::
  "'f new_employee \<Rightarrow> 'f session \<Rightarrow> (exn + unit) \<times> 'f session" where
  "insert_employee n s =
     (let es = employees (working s) in
      if \<not> (int64 (n_employee_id n)
             \<and> (case n_manager_id n of None \<Rightarrow> True | Some i \<Rightarrow> int64 i)
             \<and> (case n_department_id n of None \<Rightarrow> True | Some i \<Rightarrow> int64 i))
      then (Inl OverflowError, s)
      else if Some (n_employee_id n) \<in> set (map e_employee_id es) then (Inl IntegrityError, s)
      else (Inr (),
            s\<lparr>working := (working s)\<lparr>employees :=
                 es @ [employee_row (next_id (map e_id es)) n]\<rparr>\<rparr>))"

fun bulk_save_employees ::
  "'f new_employee list \<Rightarrow> 'f session \<Rightarrow> (exn + unit) \<times> 'f session" where
  "bulk_save_employees [] s = (Inr (), s)"
| "bulk_save_employees (n # ns) s =
     (case insert_employee n s of
        (Inl e, s') \<Rightarrow> (Inl e, s')
      | (Inr u, s') \<Rightarrow> bulk_save_employees ns s')"

section \<open>The upload handler\<close>

definition required_columns :: "string list" where
  "required_columns =
     [''EMPLOYEE_ID'', ''FIRST_NAME'', ''LAST_NAME'', ''PHONE_NUMBER'',
      ''COMPANY_NAME'', ''SALARY'', ''MANAGER_ID'', ''DEPARTMENT_ID'']"

text \<open>Lines 75 to 79: the file is read as a spreadsheet or as comma-separated text.\<close>

definition read_file :: "'f pylib \<Rightarrow> upload_file \<Rightarrow> exn + 'f table" where
  "read_file lib file =
     (if endswith (filename file) ''.xlsx'' then pd_read_excel lib (content file)
      else (case bytes_decode lib (content file) of
              Inl e \<Rightarrow> Inl e
            | Inr text \<Rightarrow> pd_read_csv lib text))"

text \<open>
  \<^verbatim>\<open>name not in existing_company_names\<close>: the set holds names read from the store,
  which are strings; a cell that is not a string equals none of them.
\<close>

definition name_in :: "'f cell \<Rightarrow> string option set \<Rightarrow> bool" where
  "name_in name names = (case name of StrCell s \<Rightarrow> Some s \<in> names | _ \<Rightarrow> False)"

text \<open>
  \<^verbatim>\<open>company_name_to_id[row["COMPANY_NAME"]]\<close>: the dictionary's keys are names read
  from the store; a missing key raises \<^verbatim>\<open>KeyError\<close>.
\<close>

definition lookup_company :: "(string option \<rightharpoonup> int) \<Rightarrow> 'f cell \<Rightarrow> exn + int" where
  "lookup_company company_name_to_id key =
     (case key of
        StrCell s \<Rightarrow>
          (case company_name_to_id (Some s) of None \<Rightarrow> Inl KeyError | Some i \<Rightarrow> Inr i)
      | _ \<Rightarrow> Inl KeyError)"

text \<open>
  Lines 114 and 115: \<^verbatim>\<open>int(cell) if not pd.isnull(cell) else None\<close>.
\<close>

definition optional_int :: "'f pylib \<Rightarrow> 'f cell \<Rightarrow> exn + int option" where
  "optional_int lib c =
     (if \<not> py_isnull c then (case py_int lib c of Inl e \<Rightarrow> Inl e | Inr i \<Rightarrow> Inr (Some i))
      else Inr None)"

text \<open>
  Lines 108 to 117: the \<^verbatim>\<open>Employee\<close> object of one row. The arguments are evaluated
  in the order written; the first exception leaves the loop. \<^verbatim>\<open>str\<close> does not raise.
\<close>

definition new_Employee ::
  "'f pylib \<Rightarrow> (string option \<rightharpoonup> int) \<Rightarrow> (string \<Rightarrow> 'f cell) \<Rightarrow> exn + 'f new_employee" where
  "new_Employee lib company_name_to_id row =
     (case py_int lib (row ''EMPLOYEE_ID'') of
        Inl e \<Rightarrow> Inl e
      | Inr employee_id \<Rightarrow>
     (case py_float lib (row ''SALARY'') of
        Inl e \<Rightarrow> Inl e
      | Inr salary \<Rightarrow>
     (case optional_int lib (row ''MANAGER_ID'') of
        Inl e \<Rightarrow> Inl e
      | Inr manager_id \<Rightarrow>
     (case optional_int lib (row ''DEPARTMENT_ID'') of
        Inl e \<Rightarrow> Inl e
      | Inr department_id \<Rightarrow>
     (case lookup_company company_name_to_id (row ''COMPANY_NAME'') of
        Inl e \<Rightarrow> Inl e
      | Inr company_id \<Rightarrow>
          Inr \<lparr>n_employee_id = employee_id,
               n_first_name = py_str lib (row ''FIRST_NAME''),
               n_last_name = py_str lib (row ''LAST_NAME''),
               n_phone_number = py_str lib (row ''PHONE_NUMBER''),
               n_salary = salary,
               n_manager_id = manager_id,
               n_department_id = department_id,
               n_company_id = company_id\<rparr>)))))"

text \<open>
  Lines 95 to 99: the companies of the file that the store does not have are inserted
  and committed. The result is \<^verbatim>\<open>new_companies\<close>.
\<close>

definition persist_companies ::
  "'f pylib \<Rightarrow> 'f cell list \<Rightarrow> 'f session \<Rightarrow> (exn + 'f cell list) \<times> 'f session" where
  "persist_companies lib company_names session =
     (case query_companies_in lib company_names session of
        Inl e \<Rightarrow> (Inl e, session)
      | Inr existing_companies \<Rightarrow>
          (let existing_company_names = set (map c_company_name existing_companies);
               new_companies =
                 filter (\<lambda>name. \<not> name_in name existing_company_names) company_names
           in case bulk_save_companies lib new_companies session of
                (Inl e, s) \<Rightarrow> (Inl e, s)
              | (Inr u, s) \<Rightarrow> (Inr new_companies, commit s)))"

text \<open>
  Line 103: the dictionary from the rows of the second query; a later row replaces an
  earlier one with the same name.
\<close>

definition name_to_id :: "company list \<Rightarrow> (string option \<rightharpoonup> int)" where
  "name_to_id all_companies = map_of (rev (map (\<lambda>c. (c_company_name c, c_id c)) all_companies))"

text \<open>
  Lines 102 to 124: the employees of the file are built, inserted and committed.
\<close>

definition persist_employees ::
  "'f pylib \<Rightarrow> 'f table \<Rightarrow> 'f cell list \<Rightarrow> 'f cell list \<Rightarrow> 'f session \<Rightarrow>
     (exn + upload_response) \<times> 'f session" where
  "persist_employees lib df company_names new_companies session =
     (case query_companies_in lib company_names session of
        Inl e \<Rightarrow> (Inl e, session)
      | Inr all_companies \<Rightarrow>
          (case collect (new_Employee lib (name_to_id all_companies)) (rows df) of
             Inl e \<Rightarrow> (Inl e, session)
           | Inr employees_to_create \<Rightarrow>
               (case bulk_save_employees employees_to_create session of
                  (Inl e, s) \<Rightarrow> (Inl e, s)
                | (Inr u, s) \<Rightarrow>
                    (Inr \<lparr>message = ''Data uploaded successfully.'',
                          companies_created = length new_companies,
                          employees_created = length employees_to_create\<rparr>,
                     commit s))))"

text \<open>Line 91: the company names of the file, each once.\<close>

definition company_names_of :: "'f table \<Rightarrow> 'f cell list" where
  "company_names_of df = drop_duplicates (map (\<lambda>row. row ''COMPANY_NAME'') (rows df))"

text \<open>Lines 94 to 124: the body of the \<^verbatim>\<open>try\<close> statement.\<close>

definition persist ::
  "'f pylib \<Rightarrow> 'f table \<Rightarrow> 'f session \<Rightarrow> (exn + upload_response) \<times> 'f session" where
  "persist lib df session =
     (let company_names = company_names_of df
      in case persist_companies lib company_names session of
           (Inl e, s) \<Rightarrow> (Inl e, s)
         | (Inr new_companies, s) \<Rightarrow> persist_employees lib df company_names new_companies s)"

text \<open>
  \<^verbatim>\<open>upload_employees\<close>: the handler takes the store as it is committed and returns its
  response with the store as it is committed afterwards. An exception of the \<^verbatim>\<open>try\<close>
  body is followed by \<^verbatim>\<open>session.rollback()\<close>; the session is closed in both cases.
\<close>

definition upload_employees ::
  "'f pylib \<Rightarrow> upload_file \<Rightarrow> 'f store \<Rightarrow> (http_error + upload_response) \<times> 'f store" where
  "upload_employees lib file db =
     (if \<not> (endswith (filename file) ''.xlsx'' \<or> endswith (filename file) ''.csv'')
      then (Inl (HTTPException 400 (Msg ''File must be .xlsx or .csv'')), db)
      else
        (case read_file lib file of
           Inl e \<Rightarrow> (Inl (HTTPException 400 (ErrorReadingFile e)), db)
         | Inr df \<Rightarrow>
             if \<not> list_all (\<lambda>col. col \<in> set (columns df)) required_columns
             then (Inl (HTTPException 400 (Msg ''Missing required columns in file.'')), db)
             else
               (case persist lib df (SessionLocal db) of
                  (Inr response, s) \<Rightarrow> (Inr response, close s)
                | (Inl e, s) \<Rightarrow> (Inl (HTTPException 500 (DatabaseError e)), close (rollback s)))))"

section \<open>The listing handler\<close>

text \<open>
  \<^verbatim>\<open>EmployeeResponse(...)\<close>: the schema declares \<^verbatim>\<open>manager_id\<close> and \<^verbatim>\<open>department_id\<close>
  optional and every other field, \<^verbatim>\<open>company_name\<close> included, of a plain type; the
  validation of the schema rejects \<^verbatim>\<open>None\<close> there.
\<close>

definition EmployeeResponse ::
  "int option \<Rightarrow> string option \<Rightarrow> string option \<Rightarrow> string option \<Rightarrow> 'f option \<Rightarrow>
     int option \<Rightarrow> int option \<Rightarrow> string option \<Rightarrow> exn + 'f employee_response" where
  "EmployeeResponse employee_id first_name last_name phone_number salary
       manager_id department_id company_name =
     (case (employee_id, first_name, last_name, phone_number, salary, company_name) of
        (Some i, Some fn, Some ln, Some pn, Some sal, Some cn) \<Rightarrow>
          Inr \<lparr>r_employee_id = i, r_first_name = fn, r_last_name = ln, r_phone_number = pn,
               r_salary = sal, r_manager_id = manager_id, r_department_id = department_id,
               r_company_name = cn\<rparr>
      | _ \<Rightarrow> Inl ValidationError)"

text \<open>
  Line 138: \<^verbatim>\<open>session.query(Company).filter(Company.id == emp.company_id).first()\<close>.
\<close>

definition query_company_by_id :: "int option \<Rightarrow> 'f session \<Rightarrow> company option" where
  "query_company_by_id company_id s =
     find (\<lambda>c. Some (c_id c) = company_id) (companies (working s))"

text \<open>Lines 138 to 148: the entry of one employee.\<close>

definition employee_entry :: "'f session \<Rightarrow> 'f employee \<Rightarrow> exn + 'f employee_response" where
  "employee_entry s emp =
     (let company = query_company_by_id (e_company_id emp) s
      in EmployeeResponse (e_employee_id emp) (e_first_name emp) (e_last_name emp)
           (e_phone_number emp) (e_salary emp) (e_manager_id emp) (e_department_id emp)
           (case company of Some c \<Rightarrow> c_company_name c | None \<Rightarrow> None))"

text \<open>
  \<^verbatim>\<open>get_employees\<close>: the handler does not catch the exception of a failed validation;
  the session is closed in both cases.
\<close>

definition get_employees :: "'f store \<Rightarrow> (exn + 'f employee_response list) \<times> 'f store" where
  "get_employees db =
     (let session = SessionLocal db
      in (collect (employee_entry session) (employees (working session)), close session))"

section \<open>Sequences of requests and example data\<close>

text \<open>The store before any request, and the store after a sequence of uploads.\<close>

definition empty_store :: "'f store" where
  "empty_store = \<lparr>companies = [], employees = []\<rparr>"

fun uploads :: "'f pylib \<Rightarrow> upload_file list \<Rightarrow> 'f store \<Rightarrow> 'f store" where
  "uploads lib [] db = db"
| "uploads lib (file # files) db = uploads lib files (snd (upload_employees lib file db))"

text \<open>
  The uniqueness of \<^verbatim>\<open>company_name\<close> as the schema declares it: the names of the rows
  that have one (\<^verbatim>\<open>NULL\<close> is no name) are pairwise different.
\<close>

definition names_unique :: "'f store \<Rightarrow> bool" where
  "names_unique db = distinct (filter (\<lambda>v. v \<noteq> None) (map c_company_name (companies db)))"

text \<open>
  A library instance for closed examples: the reader of comma-separated text is given,
  the floats are the whole numbers, no string of the examples is a numeral, and a
  statement binds at most 32766 variables.
\<close>

definition example_lib :: "(string \<Rightarrow> exn + int table) \<Rightarrow> int pylib" where
  "example_lib reader =
     \<lparr>bytes_decode = Inr, pd_read_csv = reader, pd_read_excel = (\<lambda>bytes. Inl ParserError),
      int_of_str = (\<lambda>s. Inl ValueError), int_of_float = Inr, float_of_int = Inr,
      float_of_str = (\<lambda>s. Inl ValueError),
      str_of_float = (\<lambda>f. str_of_int f @ ''.0''),
      sqlite_text_of_float = (\<lambda>f. str_of_int f @ ''.0''),
      sqlite_max_variables = 32766\<rparr>"

text \<open>
  A row of the examples, given by its employee number, company name, salary and
  manager; the department is left empty.
\<close>

definition example_row ::
  "int cell \<Rightarrow> int cell \<Rightarrow> int cell \<Rightarrow> int cell \<Rightarrow> string \<Rightarrow> int cell" where
  "example_row employee_id company_name salary manager_id =
     (\<lambda>col. NaN)
       (''EMPLOYEE_ID'' := employee_id, ''FIRST_NAME'' := StrCell ''Ada'',
        ''LAST_NAME'' := StrCell ''Byron'', ''PHONE_NUMBER'' := StrCell ''555-0100'',
        ''COMPANY_NAME'' := company_name, ''SALARY'' := salary,
        ''MANAGER_ID'' := manager_id, ''DEPARTMENT_ID'' := NaN)"

definition example_table :: "(string \<Rightarrow> int cell) list \<Rightarrow> int table" where
  "example_table rs = \<lparr>columns = required_columns, rows = rs\<rparr>"

definition example_file :: upload_file where
  "example_file = \<lparr>filename = ''staff.csv'', content = []\<rparr>"

text \<open>Three employees of two companies.\<close>

definition example_rows :: "(string \<Rightarrow> int cell) list" where
  "example_rows =
     [example_row (IntCell 1) (StrCell ''Acme'') (IntCell 100) NaN,
      example_row (IntCell 2) (StrCell ''Initech'') (IntCell 120) (IntCell 1),
      example_row (IntCell 3) (StrCell ''Acme'') (IntCell 90) (IntCell 1)]"

definition staff_lib :: "int pylib" where
  "staff_lib = example_lib (\<lambda>text. Inr (example_table example_rows))"

text \<open>A file whose only row has an employee number that is not a numeral.\<close>

definition bad_id_lib :: "int pylib" where
  "bad_id_lib =
     example_lib (\<lambda>text. Inr (example_table
       [example_row (StrCell ''E-17'') (StrCell ''Acme'') (IntCell 100) NaN]))"

text \<open>A file whose only row has an empty company name.\<close>

definition null_name_lib :: "int pylib" where
  "null_name_lib =
     example_lib (\<lambda>text. Inr (example_table [example_row (IntCell 1) NaN (IntCell 100) NaN]))"

text \<open>Two files that share the company \<^verbatim>\<open>Acme\<close>, read by one library instance.\<close>

definition file_a :: upload_file where
  "file_a = \<lparr>filename = ''a.csv'', content = ''A''\<rparr>"

definition file_b :: upload_file where
  "file_b = \<lparr>filename = ''b.csv'', content = ''B''\<rparr>"

definition two_files_lib :: "int pylib" where
  "two_files_lib =
     example_lib (\<lambda>text.
       if text = ''B''
       then Inr (example_table
              [example_row (IntCell 3) (StrCell ''Acme'') (IntCell 100) NaN,
               example_row (IntCell 4) (StrCell ''Hooli'') (IntCell 100) NaN])
       else Inr (example_table
              [example_row (IntCell 1) (StrCell ''Acme'') (IntCell 100) NaN,
               example_row (IntCell 2) (StrCell ''Initech'') (IntCell 100) NaN]))"

text \<open>
  Stores with one employee whose company reference resolves to no company row: the
  identifier 7 is no primary key of \<^verbatim>\<open>companies\<close>, or the reference is \<^verbatim>\<open>NULL\<close>.
\<close>

definition example_employee :: "int option \<Rightarrow> int employee" where
  "example_employee company_id =
     \<lparr>e_id = 1, e_employee_id = Some 1, e_first_name = Some ''Ada'',
      e_last_name = Some ''Byron'', e_phone_number = Some ''555-0100'',
      e_salary = Some 100, e_manager_id = None, e_department_id = None,
      e_company_id = company_id\<rparr>"

definition dangling_store :: "int store" where
  "dangling_store =
     \<lparr>companies = [\<lparr>c_id = 1, c_company_name = Some ''Acme''\<rparr>],
      employees = [example_employee (Some 7)]\<rparr>"

definition absent_store :: "int store" where
  "absent_store =
     \<lparr>companies = [\<lparr>c_id = 1, c_company_name = Some ''Acme''\<rparr>],
      employees = [example_employee None]\<rparr>"

text \<open>A file whose only row has an empty salary.\<close>

definition no_salary_lib :: "int pylib" where
  "no_salary_lib =
     example_lib (\<lambda>text. Inr (example_table [example_row (IntCell 1) (StrCell ''Acme'') NaN NaN]))"

lemmas handler_defs =
  upload_employees_def read_file_def endswith_def required_columns_def persist_def
  company_names_of_def employee_row_def
  persist_companies_def persist_employees_def query_companies_in_def name_in_def
  insert_company_def insert_employee_def name_to_id_def new_Employee_def
  optional_int_def py_isnull_def lookup_company_def drop_duplicates_def int64_def
  SessionLocal_def commit_def rollback_def close_def get_employees_def
  employee_entry_def query_company_by_id_def EmployeeResponse_def

lemmas example_defs =
  example_lib_def example_row_def example_table_def example_file_def empty_store_def
  example_rows_def staff_lib_def

section \<open>Iteration and the store's operations\<close>

lemma collect_Inr_list_all2:
  "collect f xs = Inr ys \<Longrightarrow> list_all2 (\<lambda>x y. f x = Inr y) xs ys"
  by (induction xs arbitrary: ys) (auto split: sum.splits)

lemma collect_Inr_length: "collect f xs = Inr ys \<Longrightarrow> length ys = length xs"
  by (drule collect_Inr_list_all2) (simp add: list_all2_lengthD)

lemma collect_Inr_nth:
  "collect f xs = Inr ys \<Longrightarrow> i < length xs \<Longrightarrow> f (xs ! i) = Inr (ys ! i)"
  by (drule collect_Inr_list_all2) (auto dest: list_all2_nthD)

lemma collect_Inr_member:
  "collect f xs = Inr ys \<Longrightarrow> x \<in> set xs \<Longrightarrow> \<exists>y. f x = Inr y"
  by (induction xs arbitrary: ys) (auto split: sum.splits)

lemma collect_total:
  "\<forall>x\<in>set xs. \<exists>y. f x = Inr y \<Longrightarrow> \<exists>ys. collect f xs = Inr ys"
proof (induction xs)
  case Nil
  then show ?case by simp
next
  case (Cons x xs)
  then obtain y ys where "f x = Inr y" "collect f xs = Inr ys" by auto
  then show ?case by simp
qed

lemma collect_cong:
  "(\<And>x. x \<in> set xs \<Longrightarrow> f x = g x) \<Longrightarrow> collect f xs = collect g xs"
  by (induction xs) (auto split: sum.splits)

lemma set_drop_duplicates [simp]: "set (drop_duplicates xs) = set xs"
  by (simp add: drop_duplicates_def)

lemma distinct_drop_duplicates [simp]: "distinct (drop_duplicates xs)"
  by (simp add: drop_duplicates_def)

lemma length_drop_duplicates: "length (drop_duplicates xs) = card (set xs)"
  by (simp add: drop_duplicates_def length_remdups_card_conv)

lemma insert_company_committed:
  "insert_company v s = (r, s') \<Longrightarrow> committed s' = committed s"
  by (auto simp: insert_company_def Let_def split: if_splits)

lemma insert_company_employees:
  "insert_company v s = (r, s') \<Longrightarrow> employees (working s') = employees (working s)"
  by (auto simp: insert_company_def Let_def split: if_splits)

lemma insert_company_Inl:
  "insert_company v s = (Inl e, s') \<Longrightarrow> s' = s \<and> e = IntegrityError"
  by (auto simp: insert_company_def Let_def split: if_splits)

lemma insert_company_Inr:
  "insert_company v s = (Inr u, s') \<Longrightarrow>
     companies (working s') =
       companies (working s) @ [\<lparr>c_id = next_id (map c_id (companies (working s))), c_company_name = v\<rparr>]
     \<and> (v = None \<or> v \<notin> set (map c_company_name (companies (working s))))"
  by (auto simp: insert_company_def Let_def split: if_splits)

lemma bulk_save_companies_committed:
  "bulk_save_companies lib names s = (r, s') \<Longrightarrow> committed s' = committed s"
proof (induction names arbitrary: s)
  case Nil
  then show ?case by simp
next
  case (Cons name names)
  then show ?case
    by (auto split: sum.splits prod.splits dest: insert_company_committed insert_company_Inl)
qed

lemma bulk_save_companies_employees:
  "bulk_save_companies lib names s = (r, s') \<Longrightarrow>
     employees (working s') = employees (working s)"
proof (induction names arbitrary: s)
  case Nil
  then show ?case by simp
next
  case (Cons name names)
  then show ?case
    by (auto split: sum.splits prod.splits dest: insert_company_employees insert_company_Inl)
qed

lemma bulk_save_companies_extends:
  "bulk_save_companies lib names s = (r, s') \<Longrightarrow>
     \<exists>cs. companies (working s') = companies (working s) @ cs
          \<and> length cs \<le> length names
          \<and> (\<forall>u. r = Inr u \<longrightarrow> length cs = length names)"
proof (induction names arbitrary: s)
  case Nil
  then show ?case by simp
next
  case (Cons name names)
  show ?case
  proof (cases "bind_name lib name")
    case (Inl e)
    with Cons.prems show ?thesis by auto
  next
    case (Inr v)
    obtain r1 s1 where ins: "insert_company v s = (r1, s1)" by (cases "insert_company v s")
    show ?thesis
    proof (cases r1)
      case (Inl e)
      with ins Inr Cons.prems insert_company_Inl[of v s e s1] show ?thesis by auto
    next
      case r1: (Inr u)
      with ins Inr Cons.prems have rest: "bulk_save_companies lib names s1 = (r, s')" by simp
      from Cons.IH[OF rest] obtain cs where
        cs: "companies (working s') = companies (working s1) @ cs"
            "length cs \<le> length names" "\<forall>u. r = Inr u \<longrightarrow> length cs = length names"
        by blast
      from ins r1 insert_company_Inr[of v s u s1]
      have "companies (working s1) =
              companies (working s) @ [\<lparr>c_id = next_id (map c_id (companies (working s))), c_company_name = v\<rparr>]"
        by simp
      with cs show ?thesis by auto
    qed
  qed
qed

lemma insert_employee_committed:
  "insert_employee n s = (r, s') \<Longrightarrow> committed s' = committed s"
  by (auto simp: insert_employee_def Let_def split: if_splits)

lemma insert_employee_companies:
  "insert_employee n s = (r, s') \<Longrightarrow> companies (working s') = companies (working s)"
  by (auto simp: insert_employee_def Let_def split: if_splits)

lemma insert_employee_Inl:
  "insert_employee n s = (Inl e, s') \<Longrightarrow> s' = s"
  by (auto simp: insert_employee_def Let_def split: if_splits)

lemma insert_employee_Inr:
  "insert_employee n s = (Inr u, s') \<Longrightarrow>
     employees (working s') =
       employees (working s) @ [employee_row (next_id (map e_id (employees (working s)))) n]
     \<and> int64 (n_employee_id n)
     \<and> (case n_manager_id n of None \<Rightarrow> True | Some i \<Rightarrow> int64 i)
     \<and> (case n_department_id n of None \<Rightarrow> True | Some i \<Rightarrow> int64 i)
     \<and> Some (n_employee_id n) \<notin> set (map e_employee_id (employees (working s)))"
  by (auto simp: insert_employee_def Let_def split: if_splits)

lemma bulk_save_employees_committed:
  "bulk_save_employees ns s = (r, s') \<Longrightarrow> committed s' = committed s"
proof (induction ns arbitrary: s)
  case Nil
  then show ?case by simp
next
  case (Cons n ns)
  then show ?case
    by (auto split: sum.splits prod.splits dest: insert_employee_committed insert_employee_Inl)
qed

lemma bulk_save_employees_companies:
  "bulk_save_employees ns s = (r, s') \<Longrightarrow> companies (working s') = companies (working s)"
proof (induction ns arbitrary: s)
  case Nil
  then show ?case by simp
next
  case (Cons n ns)
  then show ?case
    by (auto split: sum.splits prod.splits dest: insert_employee_companies insert_employee_Inl)
qed

text \<open>On success the new rows are the objects in order, each with some primary key.\<close>

lemma bulk_save_employees_Inr:
  "bulk_save_employees ns s = (Inr u, s') \<Longrightarrow>
     \<exists>ids. length ids = length ns
          \<and> employees (working s') = employees (working s) @ map2 employee_row ids ns"
proof (induction ns arbitrary: s)
  case Nil
  then show ?case by simp
next
  case (Cons n ns)
  obtain r1 s1 where ins: "insert_employee n s = (r1, s1)" by (cases "insert_employee n s")
  with Cons.prems obtain u1 where r1: "r1 = Inr u1"
    by (cases r1) auto
  with ins Cons.prems have rest: "bulk_save_employees ns s1 = (Inr u, s')" by simp
  from Cons.IH[OF rest] obtain ids where ids: "length ids = length ns"
    "employees (working s') = employees (working s1) @ map2 employee_row ids ns" by blast
  let ?i = "next_id (map e_id (employees (working s)))"
  from ins r1 insert_employee_Inr[of n s u1 s1]
  have "employees (working s1) = employees (working s) @ [employee_row ?i n]" by simp
  with ids have "length (?i # ids) = length (n # ns)
     \<and> employees (working s') = employees (working s) @ map2 employee_row (?i # ids) (n # ns)"
    by simp
  then show ?case by blast
qed

lemma bulk_save_employees_first_fits:
  "bulk_save_employees (n # ns) s = (Inr u, s') \<Longrightarrow>
     int64 (n_employee_id n)
     \<and> (case n_manager_id n of None \<Rightarrow> True | Some i \<Rightarrow> int64 i)
     \<and> (case n_department_id n of None \<Rightarrow> True | Some i \<Rightarrow> int64 i)"
  by (auto split: sum.splits prod.splits dest: insert_employee_Inr)

lemma persist_companies_Inl:
  "persist_companies lib names s = (Inl e, s') \<Longrightarrow> committed s' = committed s"
  by (auto simp: persist_companies_def Let_def split: sum.splits prod.splits
           dest: bulk_save_companies_committed)

lemma persist_companies_Inr:
  assumes "persist_companies lib names s = (Inr new, s')"
  shows "committed s' = working s'"
    and "employees (working s') = employees (working s)"
    and "\<exists>cs. companies (working s') = companies (working s) @ cs \<and> length cs = length new"
    and "\<exists>existing. query_companies_in lib names s = Inr existing
           \<and> new = filter (\<lambda>name. \<not> name_in name (set (map c_company_name existing))) names"
proof -
  from assms obtain existing u s1 where
    q: "query_companies_in lib names s = Inr existing" and
    new: "new = filter (\<lambda>name. \<not> name_in name (set (map c_company_name existing))) names" and
    b: "bulk_save_companies lib new s = (Inr u, s1)" and
    s': "s' = commit s1"
    by (auto simp: persist_companies_def Let_def split: sum.splits prod.splits)
  from s' show "committed s' = working s'" by (simp add: commit_def)
  from b s' show "employees (working s') = employees (working s)"
    by (auto simp: commit_def dest: bulk_save_companies_employees)
  from bulk_save_companies_extends[OF b] s'
  show "\<exists>cs. companies (working s') = companies (working s) @ cs \<and> length cs = length new"
    by (auto simp: commit_def)
  from q new show "\<exists>existing. query_companies_in lib names s = Inr existing
           \<and> new = filter (\<lambda>name. \<not> name_in name (set (map c_company_name existing))) names"
    by blast
qed

lemma persist_employees_Inl:
  "persist_employees lib df names new s = (Inl e, s') \<Longrightarrow> committed s' = committed s"
  by (auto simp: persist_employees_def split: sum.splits prod.splits
           dest: bulk_save_employees_committed)

lemma persist_employees_Inr:
  assumes "persist_employees lib df names new s = (Inr r, s')"
  shows "\<exists>all_companies emps ids.
           query_companies_in lib names s = Inr all_companies
         \<and> collect (new_Employee lib (name_to_id all_companies)) (rows df) = Inr emps
         \<and> (\<exists>u s2. bulk_save_employees emps s = (Inr u, s2))
         \<and> length ids = length emps
         \<and> employees (working s') = employees (working s) @ map2 employee_row ids emps
         \<and> companies (working s') = companies (working s)
         \<and> committed s' = working s'
         \<and> r = \<lparr>message = ''Data uploaded successfully.'', companies_created = length new,
                  employees_created = length emps\<rparr>"
proof -
  from assms obtain all_companies emps u s2 where
    q: "query_companies_in lib names s = Inr all_companies" and
    c: "collect (new_Employee lib (name_to_id all_companies)) (rows df) = Inr emps" and
    b: "bulk_save_employees emps s = (Inr u, s2)" and
    s': "s' = commit s2" and
    r: "r = \<lparr>message = ''Data uploaded successfully.'', companies_created = length new,
             employees_created = length emps\<rparr>"
    by (auto simp: persist_employees_def split: sum.splits prod.splits)
  from bulk_save_employees_Inr[OF b] obtain ids where
    ids: "length ids = length emps"
         "employees (working s2) = employees (working s) @ map2 employee_row ids emps"
    by blast
  from bulk_save_employees_companies[OF b] have "companies (working s2) = companies (working s)" .
  with q c b ids s' r show ?thesis
    by (auto simp: commit_def)
qed

text \<open>What a successful upload did.\<close>

lemma upload_Inr:
  assumes "upload_employees lib file db = (Inr r, db')"
  shows "\<exists>df new s1 all_companies emps ids.
           read_file lib file = Inr df
         \<and> persist_companies lib (company_names_of df) (SessionLocal db) = (Inr new, s1)
         \<and> query_companies_in lib (company_names_of df) s1 = Inr all_companies
         \<and> collect (new_Employee lib (name_to_id all_companies)) (rows df) = Inr emps
         \<and> (\<exists>u s2. bulk_save_employees emps s1 = (Inr u, s2))
         \<and> length ids = length emps
         \<and> employees db' = employees db @ map2 employee_row ids emps
         \<and> companies db' = companies (working s1)
         \<and> r = \<lparr>message = ''Data uploaded successfully.'', companies_created = length new,
                  employees_created = length emps\<rparr>"
proof -
  from assms obtain df s where
    rd: "read_file lib file = Inr df" and
    p: "persist lib df (SessionLocal db) = (Inr r, s)" and
    db': "db' = close s"
    by (auto simp: upload_employees_def split: if_splits sum.splits prod.splits)
  from p obtain new s1 where
    pc: "persist_companies lib (company_names_of df) (SessionLocal db) = (Inr new, s1)" and
    pe: "persist_employees lib df (company_names_of df) new s1 = (Inr r, s)"
    by (auto simp: persist_def company_names_of_def Let_def split: sum.splits prod.splits)
  from persist_employees_Inr[OF pe] obtain all_companies emps ids where
    pe': "query_companies_in lib (company_names_of df) s1 = Inr all_companies"
      "collect (new_Employee lib (name_to_id all_companies)) (rows df) = Inr emps"
      "\<exists>u s2. bulk_save_employees emps s1 = (Inr u, s2)"
      "length ids = length emps"
      "employees (working s) = employees (working s1) @ map2 employee_row ids emps"
      "companies (working s) = companies (working s1)"
      "committed s = working s"
      "r = \<lparr>message = ''Data uploaded successfully.'', companies_created = length new,
                  employees_created = length emps\<rparr>"
    by blast
  from persist_companies_Inr(2)[OF pc]
  have "employees (working s1) = employees db" by (simp add: SessionLocal_def)
  with pe' db' have "employees db' = employees db @ map2 employee_row ids emps"
    "companies db' = companies (working s1)"
    by (simp_all add: close_def)
  with rd pc pe' show ?thesis by blast
qed

lemma new_Employee_Inr:
  assumes "new_Employee lib m row = Inr n"
  shows "py_int lib (row ''EMPLOYEE_ID'') = Inr (n_employee_id n)"
    and "py_float lib (row ''SALARY'') = Inr (n_salary n)"
    and "optional_int lib (row ''MANAGER_ID'') = Inr (n_manager_id n)"
    and "optional_int lib (row ''DEPARTMENT_ID'') = Inr (n_department_id n)"
    and "lookup_company m (row ''COMPANY_NAME'') = Inr (n_company_id n)"
    and "n_first_name n = py_str lib (row ''FIRST_NAME'')"
    and "n_last_name n = py_str lib (row ''LAST_NAME'')"
    and "n_phone_number n = py_str lib (row ''PHONE_NUMBER'')"
  using assms by (auto simp: new_Employee_def split: sum.splits)

lemma lookup_company_Inr:
  "lookup_company m c = Inr i \<Longrightarrow> \<exists>s. c = StrCell s \<and> m (Some s) = Some i"
  by (auto simp: lookup_company_def split: cell.splits option.splits)

lemma name_in_mono: "name_in c A \<Longrightarrow> A \<subseteq> B \<Longrightarrow> name_in c B"
  by (auto simp: name_in_def split: cell.splits)

lemma query_companies_in_subset:
  "query_companies_in lib names s = Inr cs \<Longrightarrow> set cs \<subseteq> set (companies (working s))"
  by (auto simp: query_companies_in_def split: if_splits sum.splits)

lemma optional_int_Inr:
  "optional_int lib c = Inr v \<Longrightarrow>
     (py_isnull c \<longrightarrow> v = None) \<and> (\<not> py_isnull c \<longrightarrow> (\<exists>n. py_int lib c = Inr n \<and> v = Some n))"
  by (auto simp: optional_int_def split: if_splits sum.splits)

section \<open>Evaluation of the examples\<close>

lemma staff_read: "read_file staff_lib example_file = Inr (example_table example_rows)"
  by (simp add: read_file_def staff_lib_def example_lib_def example_file_def endswith_def)

lemma staff_upload:
  "upload_employees staff_lib example_file empty_store =
     (Inr \<lparr>message = ''Data uploaded successfully.'', companies_created = 2,
           employees_created = 3\<rparr>,
      \<lparr>companies = [\<lparr>c_id = 1, c_company_name = Some ''Acme''\<rparr>,
                    \<lparr>c_id = 2, c_company_name = Some ''Initech''\<rparr>],
       employees =
         [\<lparr>e_id = 1, e_employee_id = Some 1, e_first_name = Some ''Ada'',
           e_last_name = Some ''Byron'', e_phone_number = Some ''555-0100'',
           e_salary = Some 100, e_manager_id = None, e_department_id = None,
           e_company_id = Some 1\<rparr>,
          \<lparr>e_id = 2, e_employee_id = Some 2, e_first_name = Some ''Ada'',
           e_last_name = Some ''Byron'', e_phone_number = Some ''555-0100'',
           e_salary = Some 120, e_manager_id = Some 1, e_department_id = None,
           e_company_id = Some 2\<rparr>,
          \<lparr>e_id = 3, e_employee_id = Some 3, e_first_name = Some ''Ada'',
           e_last_name = Some ''Byron'', e_phone_number = Some ''555-0100'',
           e_salary = Some 90, e_manager_id = Some 1, e_department_id = None,
           e_company_id = Some 1\<rparr>]\<rparr>)"
  by (simp add: handler_defs example_defs)

section \<open>Properties of the listing handler\<close>

text \<open>
  C10. The listing handler is read-only: for every store, the store committed after
  \<^verbatim>\<open>get_employees\<close> is the store before it; both tables are unchanged, whether the
  handler returns the list or raises.
\<close>

theorem get_employees_read_only: "snd (get_employees db) = db"
  by (simp add: get_employees_def SessionLocal_def close_def Let_def)

section \<open>Properties of the upload handler\<close>

text \<open>
  C8. A file that is read into a table whose columns miss one of the eight required
  names is rejected with status 400 and the message of the column check, and the
  store is unchanged.
\<close>

theorem upload_missing_column_rejected:
  assumes "endswith (filename file) ''.xlsx'' \<or> endswith (filename file) ''.csv''"
    and "read_file lib file = Inr df"
    and "col \<in> set required_columns"
    and "col \<notin> set (columns df)"
  shows "upload_employees lib file db =
           (Inl (HTTPException 400 (Msg ''Missing required columns in file.'')), db)"
proof -
  from assms(3,4) have "\<not> list_all (\<lambda>col. col \<in> set (columns df)) required_columns"
    by (auto simp: list_all_iff)
  with assms(1,2) show ?thesis
    by (simp add: upload_employees_def)
qed

theorem upload_missing_column_rejected_witness:
  "upload_employees
     (example_lib (\<lambda>text. Inr
        \<lparr>columns = [''EMPLOYEE_ID'', ''FIRST_NAME'', ''LAST_NAME'', ''PHONE_NUMBER'',
                    ''COMPANY_NAME'', ''salary'', ''MANAGER_ID'', ''DEPARTMENT_ID''],
         rows = example_rows\<rparr>))
     example_file empty_store =
   (Inl (HTTPException 400 (Msg ''Missing required columns in file.'')), empty_store)"
proof -
  let ?df = "\<lparr>columns = [''EMPLOYEE_ID'', ''FIRST_NAME'', ''LAST_NAME'', ''PHONE_NUMBER'',
                           ''COMPANY_NAME'', ''salary'', ''MANAGER_ID'', ''DEPARTMENT_ID''],
               rows = example_rows\<rparr>"
  have ext: "endswith (filename example_file) ''.xlsx'' \<or> endswith (filename example_file) ''.csv''"
    by (simp add: example_file_def endswith_def)
  have rd: "read_file (example_lib (\<lambda>text. Inr ?df)) example_file = Inr ?df"
    by (simp add: example_file_def example_lib_def endswith_def read_file_def)
  have req: "''SALARY'' \<in> set required_columns"
    by (simp add: required_columns_def)
  have miss: "''SALARY'' \<notin> set (columns ?df)"
    by simp
  show ?thesis
    by (rule upload_missing_column_rejected [OF ext rd req miss])
qed

text \<open>
  C6. When an upload succeeds and no company name of the file is the name of a company
  in the store, the response counts the N distinct company names of the file and its
  M rows, the companies table is the old one followed by N new rows, and the
  employees table is the old one followed by M new rows.
\<close>

theorem upload_fresh_counts:
  assumes up: "upload_employees lib file db = (Inr r, db')"
    and rd: "read_file lib file = Inr df"
    and fresh: "\<forall>row\<in>set (rows df).
                  \<not> name_in (row ''COMPANY_NAME'') (set (map c_company_name (companies db)))"
  shows "companies_created r = card ((\<lambda>row. row ''COMPANY_NAME'') ` set (rows df))
       \<and> employees_created r = length (rows df)
       \<and> (\<exists>cs. companies db' = companies db @ cs
               \<and> length cs = card ((\<lambda>row. row ''COMPANY_NAME'') ` set (rows df)))
       \<and> (\<exists>es. employees db' = employees db @ es \<and> length es = length (rows df))"
proof -
  from upload_Inr[OF up] rd obtain new s1 all_companies emps ids where
    pc: "persist_companies lib (company_names_of df) (SessionLocal db) = (Inr new, s1)" and
    c: "collect (new_Employee lib (name_to_id all_companies)) (rows df) = Inr emps" and
    ids: "length ids = length emps" and
    es: "employees db' = employees db @ map2 employee_row ids emps" and
    cs: "companies db' = companies (working s1)" and
    r: "r = \<lparr>message = ''Data uploaded successfully.'', companies_created = length new,
             employees_created = length emps\<rparr>"
    by auto
  from persist_companies_Inr(4)[OF pc] obtain existing where
    q: "query_companies_in lib (company_names_of df) (SessionLocal db) = Inr existing" and
    new: "new = filter (\<lambda>name. \<not> name_in name (set (map c_company_name existing)))
                  (company_names_of df)"
    by blast
  from query_companies_in_subset[OF q]
  have sub: "set (map c_company_name existing) \<subseteq> set (map c_company_name (companies db))"
    by (auto simp: SessionLocal_def)
  have "\<forall>name\<in>set (company_names_of df). \<not> name_in name (set (map c_company_name existing))"
  proof
    fix name assume "name \<in> set (company_names_of df)"
    then obtain row where "row \<in> set (rows df)" "name = row ''COMPANY_NAME''"
      by (auto simp: company_names_of_def)
    with fresh sub show "\<not> name_in name (set (map c_company_name existing))"
      by (blast dest: name_in_mono)
  qed
  with new have "new = company_names_of df" by simp
  then have n: "length new = card ((\<lambda>row. row ''COMPANY_NAME'') ` set (rows df))"
    by (simp add: company_names_of_def length_drop_duplicates)
  from collect_Inr_length[OF c] have m: "length emps = length (rows df)" .
  from persist_companies_Inr(3)[OF pc] cs n
  have "\<exists>cs. companies db' = companies db @ cs
            \<and> length cs = card ((\<lambda>row. row ''COMPANY_NAME'') ` set (rows df))"
    by (auto simp: SessionLocal_def)
  moreover from es ids m
  have "\<exists>es. employees db' = employees db @ es \<and> length es = length (rows df)"
    by simp
  ultimately show ?thesis using r n m by simp
qed

theorem upload_fresh_counts_witness:
  "\<exists>r db'. upload_employees staff_lib example_file empty_store = (Inr r, db')
      \<and> companies_created r = 2 \<and> employees_created r = 3
      \<and> length (companies db') = 2 \<and> length (employees db') = 3"
proof -
  have fresh: "\<forall>row\<in>set (rows (example_table example_rows)).
      \<not> name_in (row ''COMPANY_NAME'')
          (set (map c_company_name (companies (empty_store :: int store))))"
    by (simp add: example_defs name_in_def)
  from upload_fresh_counts [OF staff_upload staff_read fresh] staff_upload
  show ?thesis by simp
qed

text \<open>
  C9. After a successful upload, the employee persisted for a row has no manager
  (department) when the row's \<^verbatim>\<open>MANAGER_ID\<close> (\<^verbatim>\<open>DEPARTMENT_ID\<close>) cell is null, not
  zero, and has the integer \<^verbatim>\<open>int(cell)\<close> otherwise. The employees of the file are the
  last rows of the table, in the order of the file.
\<close>

theorem upload_optional_ids:
  assumes up: "upload_employees lib file db = (Inr r, db')"
    and rd: "read_file lib file = Inr df"
    and i: "i < length (rows df)"
  shows "length (employees db') = length (employees db) + length (rows df)
       \<and> (py_isnull ((rows df ! i) ''MANAGER_ID'') \<longrightarrow>
            e_manager_id (employees db' ! (length (employees db) + i)) = None)
       \<and> (\<not> py_isnull ((rows df ! i) ''MANAGER_ID'') \<longrightarrow>
            (\<exists>n. py_int lib ((rows df ! i) ''MANAGER_ID'') = Inr n
               \<and> e_manager_id (employees db' ! (length (employees db) + i)) = Some n))
       \<and> (py_isnull ((rows df ! i) ''DEPARTMENT_ID'') \<longrightarrow>
            e_department_id (employees db' ! (length (employees db) + i)) = None)
       \<and> (\<not> py_isnull ((rows df ! i) ''DEPARTMENT_ID'') \<longrightarrow>
            (\<exists>n. py_int lib ((rows df ! i) ''DEPARTMENT_ID'') = Inr n
               \<and> e_department_id (employees db' ! (length (employees db) + i)) = Some n))"
proof -
  from upload_Inr[OF up] rd obtain all_companies emps ids where
    c: "collect (new_Employee lib (name_to_id all_companies)) (rows df) = Inr emps" and
    ids: "length ids = length emps" and
    es: "employees db' = employees db @ map2 employee_row ids emps"
    by auto
  from collect_Inr_length[OF c] have m: "length emps = length (rows df)" .
  from collect_Inr_nth[OF c i]
  have ne: "new_Employee lib (name_to_id all_companies) (rows df ! i) = Inr (emps ! i)" .
  from es ids m i
  have nth: "employees db' ! (length (employees db) + i) = employee_row (ids ! i) (emps ! i)"
    by (simp add: nth_append)
  have mgr: "e_manager_id (employee_row (ids ! i) (emps ! i)) = n_manager_id (emps ! i)"
    and dep: "e_department_id (employee_row (ids ! i) (emps ! i)) = n_department_id (emps ! i)"
    by (simp_all add: employee_row_def)
  from es ids m have len: "length (employees db') = length (employees db) + length (rows df)"
    by simp
  from optional_int_Inr[OF new_Employee_Inr(3)[OF ne]]
       optional_int_Inr[OF new_Employee_Inr(4)[OF ne]] nth mgr dep len
  show ?thesis by simp
qed

theorem upload_optional_ids_witness:
  "(1::nat) < length (rows (example_table example_rows))
   \<and> (\<exists>r db'. upload_employees staff_lib example_file empty_store = (Inr r, db')
        \<and> e_manager_id (employees db' ! 0) = None
        \<and> e_manager_id (employees db' ! 1) = Some 1
        \<and> e_department_id (employees db' ! 1) = None)"
proof -
  have i: "(1::nat) < length (rows (example_table example_rows))"
    by (simp add: example_defs)
  from upload_optional_ids [OF staff_upload staff_read i] i staff_upload
  show ?thesis by simp
qed

section \<open>Exceptions of the persistence phase\<close>

lemma bad_id_read:
  "read_file bad_id_lib example_file =
     Inr (example_table [example_row (StrCell ''E-17'') (StrCell ''Acme'') (IntCell 100) NaN])"
  by (simp add: read_file_def bad_id_lib_def example_lib_def example_file_def endswith_def)

lemma bad_id_upload:
  "upload_employees bad_id_lib example_file empty_store =
     (Inl (HTTPException 500 (DatabaseError ValueError)),
      \<lparr>companies = [\<lparr>c_id = 1, c_company_name = Some ''Acme''\<rparr>], employees = []\<rparr>)"
  by (simp add: handler_defs example_defs bad_id_lib_def)

text \<open>Status 500 is the status of an exception of the \<^verbatim>\<open>try\<close> body, and of nothing else.\<close>

lemma upload_500:
  assumes "upload_employees lib file db = (Inl (HTTPException 500 d), db')"
  shows "\<exists>df e s. read_file lib file = Inr df
           \<and> persist lib df (SessionLocal db) = (Inl e, s)
           \<and> d = DatabaseError e \<and> db' = committed s"
  using assms
  by (auto simp: upload_employees_def close_def rollback_def
           split: if_splits sum.splits prod.splits)

text \<open>
  C1, as the claim states it, fails: the file \<^verbatim>\<open>staff.csv\<close> of \<open>bad_id_lib\<close> has one
  row with the company \<^verbatim>\<open>Acme\<close> and the employee number \<^verbatim>\<open>E-17\<close>. On the empty store
  the company is inserted and committed at line 99, then \<^verbatim>\<open>int("E-17")\<close> raises; the
  handler answers 500 and the store keeps the company row.
\<close>

theorem upload_failure_keeps_companies:
  "fst (upload_employees bad_id_lib example_file empty_store) =
     Inl (HTTPException 500 (DatabaseError ValueError))
   \<and> snd (upload_employees bad_id_lib example_file empty_store) \<noteq> empty_store"
  unfolding bad_id_upload by (simp add: empty_store_def)

text \<open>
  C1, amended. When an exception is raised in the persistence phase, the handler
  answers 500 with the text of the exception, and no employee row of the request is
  persisted. When the exception is raised before the commit of line 99, the store is
  unchanged. When it is raised after, the store is the one committed at line 99: the
  company rows the request inserted stay, appended to the companies table.
\<close>

theorem upload_failure_rollback:
  assumes up: "upload_employees lib file db = (Inl (HTTPException 500 d), db')"
    and rd: "read_file lib file = Inr df"
  shows "employees db' = employees db
       \<and> (case persist_companies lib (company_names_of df) (SessionLocal db) of
            (Inl e, s) \<Rightarrow> d = DatabaseError e \<and> db' = db
          | (Inr new_companies, s) \<Rightarrow>
              (\<exists>e. d = DatabaseError e) \<and> db' = committed s
              \<and> (\<exists>cs. companies db' = companies db @ cs
                     \<and> length cs = length new_companies))"
proof -
  from upload_500[OF up] rd obtain e s where
    p: "persist lib df (SessionLocal db) = (Inl e, s)" and
    d: "d = DatabaseError e" and db': "db' = committed s"
    by auto
  obtain r1 s1 where pc: "persist_companies lib (company_names_of df) (SessionLocal db) = (r1, s1)"
    by (cases "persist_companies lib (company_names_of df) (SessionLocal db)")
  show ?thesis
  proof (cases r1)
    case (Inl e1)
    with p pc have "e1 = e" "s1 = s" by (simp_all add: persist_def)
    with pc Inl persist_companies_Inl[of lib "company_names_of df" "SessionLocal db" e s]
    have "committed s = db" by (simp add: SessionLocal_def)
    with pc Inl \<open>e1 = e\<close> d db' show ?thesis by simp
  next
    case (Inr new)
    with p pc have pe: "persist_employees lib df (company_names_of df) new s1 = (Inl e, s)"
      by (simp add: persist_def)
    from pc Inr have pc': "persist_companies lib (company_names_of df) (SessionLocal db) = (Inr new, s1)"
      by simp
    from persist_employees_Inl[OF pe] have cs: "committed s = committed s1" .
    from persist_companies_Inr(1,2,3)[OF pc'] cs db'
    have "employees db' = employees db"
      "\<exists>cs. companies db' = companies db @ cs \<and> length cs = length new"
      by (simp_all add: SessionLocal_def)
    with pc Inr d db' cs show ?thesis by auto
  qed
qed

theorem upload_failure_rollback_witness:
  "\<exists>d db'. upload_employees bad_id_lib example_file empty_store = (Inl (HTTPException 500 d), db')
      \<and> employees db' = [] \<and> d = DatabaseError ValueError
      \<and> companies db' = [\<lparr>c_id = 1, c_company_name = Some ''Acme''\<rparr>]"
  using upload_failure_rollback [OF bad_id_upload bad_id_read] bad_id_upload
  by simp

section \<open>Uniqueness of company names\<close>

lemma names_unique_cong:
  "companies db' = companies db \<Longrightarrow> names_unique db' = names_unique db"
  by (simp add: names_unique_def)

lemma insert_company_names_unique:
  assumes "insert_company v s = (r, s')" and "names_unique (working s)"
  shows "names_unique (working s')"
  using assms
  by (auto simp: insert_company_def names_unique_def Let_def split: if_splits)

lemma bulk_save_companies_names_unique:
  "bulk_save_companies lib names s = (r, s') \<Longrightarrow> names_unique (working s) \<Longrightarrow>
     names_unique (working s')"
proof (induction names arbitrary: s)
  case Nil
  then show ?case by simp
next
  case (Cons name names)
  show ?case
  proof (cases "bind_name lib name")
    case (Inl e)
    with Cons.prems show ?thesis by simp
  next
    case (Inr v)
    obtain r1 s1 where ins: "insert_company v s = (r1, s1)" by (cases "insert_company v s")
    from insert_company_names_unique[OF ins Cons.prems(2)] have u1: "names_unique (working s1)" .
    show ?thesis
    proof (cases r1)
      case (Inl e)
      with ins Inr Cons.prems(1) u1 show ?thesis by simp
    next
      case r1: (Inr u)
      with ins Inr Cons.prems(1) have "bulk_save_companies lib names s1 = (r, s')" by simp
      from Cons.IH[OF this u1] show ?thesis .
    qed
  qed
qed

lemma persist_companies_names_unique:
  assumes "persist_companies lib names s = (r, s')"
    and "names_unique (committed s)" and "names_unique (working s)"
  shows "names_unique (committed s') \<and> names_unique (working s')"
  using assms
  by (auto simp: persist_companies_def Let_def commit_def split: sum.splits prod.splits
           dest: bulk_save_companies_names_unique bulk_save_companies_committed)

lemma persist_employees_names_unique:
  assumes "persist_employees lib df names new s = (r, s')"
    and "names_unique (committed s)" and "names_unique (working s)"
  shows "names_unique (committed s')"
proof -
  have w: "names_unique (working s2) \<and> names_unique (committed s2)"
    if "bulk_save_employees emps s = (r2, s2)" for emps r2 s2
  proof -
    from bulk_save_employees_companies[OF that] bulk_save_employees_committed[OF that] assms(2,3)
    show ?thesis by (simp add: names_unique_def)
  qed
  from assms(1,2) show ?thesis
    by (auto simp: persist_employees_def commit_def split: sum.splits prod.splits dest: w)
qed

lemma persist_names_unique:
  assumes "persist lib df s = (r, s')"
    and "names_unique (committed s)" and "names_unique (working s)"
  shows "names_unique (committed s')"
proof -
  obtain r1 s1 where pc: "persist_companies lib (company_names_of df) s = (r1, s1)"
    by (cases "persist_companies lib (company_names_of df) s")
  from persist_companies_names_unique[OF pc assms(2,3)]
  have u: "names_unique (committed s1)" "names_unique (working s1)" by simp_all
  show ?thesis
  proof (cases r1)
    case (Inl e)
    with pc assms(1) u show ?thesis by (simp add: persist_def)
  next
    case (Inr new)
    with pc assms(1) have "persist_employees lib df (company_names_of df) new s1 = (r, s')"
      by (simp add: persist_def)
    from persist_employees_names_unique[OF this u] show ?thesis .
  qed
qed

lemma upload_names_unique:
  assumes "names_unique db"
  shows "names_unique (snd (upload_employees lib file db))"
proof -
  have "\<And>df r s. persist lib df (SessionLocal db) = (r, s) \<Longrightarrow> names_unique (committed s)"
    using assms by (auto intro: persist_names_unique simp: SessionLocal_def)
  with assms show ?thesis
    by (auto simp: upload_employees_def close_def rollback_def
             split: sum.splits prod.splits)
qed

text \<open>
  The upload of a file whose only row has an empty company name, on any store: the
  company is inserted with the name \<^verbatim>\<open>NULL\<close> and committed, and the lookup of line 116
  raises.
\<close>

lemma null_name_upload:
  "upload_employees null_name_lib example_file db =
     (Inl (HTTPException 500 (DatabaseError KeyError)),
      db\<lparr>companies := companies db @ [\<lparr>c_id = next_id (map c_id (companies db)), c_company_name = None\<rparr>]\<rparr>)"
  by (simp add: handler_defs example_defs null_name_lib_def Let_def)

text \<open>
  C3, as the claim states it, fails for the name \<^verbatim>\<open>NULL\<close>: two uploads of that file on
  the empty store leave two company rows whose \<^verbatim>\<open>company_name\<close> is the same,
  \<^verbatim>\<open>None\<close>. The membership test of line 97 and the unique constraint both let a
  missing name pass.
\<close>

theorem null_names_repeat:
  "\<not> distinct (map c_company_name
        (companies (uploads null_name_lib [example_file, example_file] empty_store)))"
  by (simp add: null_name_upload empty_store_def)

text \<open>
  C3, amended. Under sequential uploads, no two company rows that have a name (a
  \<^verbatim>\<open>company_name\<close> that is not \<^verbatim>\<open>NULL\<close>) share it: the property holds after every
  sequence of uploads on a store where it holds, the empty store included. So a file
  with a name the store has creates no second row with that name.
\<close>

theorem company_names_stay_unique:
  "names_unique db \<Longrightarrow> names_unique (uploads lib files db)"
  by (induction files arbitrary: db) (simp_all add: upload_names_unique)

lemma two_files_uploads:
  "map c_company_name (companies (uploads two_files_lib [file_a, file_b] empty_store)) =
     [Some ''Acme'', Some ''Initech'', Some ''Hooli'']"
  by (simp add: handler_defs example_defs two_files_lib_def file_a_def file_b_def)

theorem company_names_stay_unique_witness:
  "names_unique (uploads two_files_lib [file_a, file_b] empty_store)
   \<and> map c_company_name (companies (uploads two_files_lib [file_a, file_b] empty_store)) =
       [Some ''Acme'', Some ''Initech'', Some ''Hooli'']"
proof -
  have "names_unique (empty_store :: int store)"
    by (simp add: names_unique_def empty_store_def)
  from company_names_stay_unique [OF this, of two_files_lib "[file_a, file_b]"] two_files_uploads
  show ?thesis by simp
qed

section \<open>The resolution of company names\<close>

lemma name_to_id_defined:
  "c \<in> set cs \<Longrightarrow> \<exists>i. name_to_id cs (c_company_name c) = Some i"
proof -
  assume "c \<in> set cs"
  then have "c_company_name c \<in> fst ` set (rev (map (\<lambda>c. (c_company_name c, c_id c)) cs))"
    by force
  then have "name_to_id cs (c_company_name c) \<noteq> None"
    unfolding name_to_id_def by (simp only: map_of_eq_None_iff not_not)
  then show ?thesis by auto
qed

lemma set_company_names_of:
  "set (company_names_of df) = (\<lambda>row. row ''COMPANY_NAME'') ` set (rows df)"
  by (simp add: company_names_of_def)

lemma name_in_StrCell [simp]: "name_in (StrCell s) A \<longleftrightarrow> Some s \<in> A"
  by (simp add: name_in_def)

text \<open>
  C5, as the claim states it, fails: the file of \<open>null_name_lib\<close> is read and has the
  eight columns, and its row has an empty company name. The name is not a key of the
  dictionary built at line 103, since the second query returns no row for it; the
  lookup of line 116 raises \<^verbatim>\<open>KeyError\<close> and the handler answers 500.
\<close>

theorem null_name_lookup_fails:
  "upload_employees null_name_lib example_file empty_store =
     (Inl (HTTPException 500 (DatabaseError KeyError)),
      \<lparr>companies = [\<lparr>c_id = 1, c_company_name = None\<rparr>], employees = []\<rparr>)"
  by (simp add: null_name_upload empty_store_def)

lemma collect_Inr_image:
  "collect f xs = Inr ys \<Longrightarrow> x \<in> set xs \<Longrightarrow> f x = Inr y \<Longrightarrow> y \<in> set ys"
  by (induction xs arbitrary: ys) (auto split: sum.splits)

lemma query_companies_in_Inr:
  "query_companies_in lib names s = Inr cs \<Longrightarrow>
     \<exists>vs. collect (bind_name lib) names = Inr vs
        \<and> cs = filter (\<lambda>c. c_company_name c \<noteq> None \<and> c_company_name c \<in> set vs)
                 (companies (working s))"
  by (auto simp: query_companies_in_def split: if_splits sum.splits)

lemma bulk_save_companies_inserted:
  "bulk_save_companies lib ns st = (Inr u, st') \<Longrightarrow> n \<in> set ns \<Longrightarrow>
     \<exists>v. bind_name lib n = Inr v \<and> v \<in> set (map c_company_name (companies (working st')))"
proof (induction ns arbitrary: st)
  case Nil
  then show ?case by simp
next
  case (Cons m ns)
  from Cons.prems(1) obtain v where bv: "bind_name lib m = Inr v"
    by (cases "bind_name lib m") auto
  obtain r1 s1 where ins: "insert_company v st = (r1, s1)" by (cases "insert_company v st")
  with bv Cons.prems(1) obtain u1 where r1: "r1 = Inr u1"
    by (cases r1) auto
  with bv ins Cons.prems(1) have rest: "bulk_save_companies lib ns s1 = (Inr u, st')" by simp
  show ?case
  proof (cases "n = m")
    case True
    from ins r1 insert_company_Inr[of v st u1 s1]
    have "v \<in> set (map c_company_name (companies (working s1)))" by simp
    moreover from bulk_save_companies_extends[OF rest] obtain cs where
      "companies (working st') = companies (working s1) @ cs" by blast
    ultimately have "v \<in> set (map c_company_name (companies (working st')))" by simp
    with bv True show ?thesis by blast
  next
    case False
    with Cons.prems(2) have "n \<in> set ns" by simp
    from Cons.IH[OF rest this] show ?thesis .
  qed
qed

text \<open>The company phase and the second query on two of the example files.\<close>

lemma staff_persist_companies:
  "persist_companies staff_lib (company_names_of (example_table example_rows))
     (SessionLocal empty_store) =
   (Inr [StrCell ''Acme'', StrCell ''Initech''],
    SessionLocal \<lparr>companies = [\<lparr>c_id = 1, c_company_name = Some ''Acme''\<rparr>,
                                \<lparr>c_id = 2, c_company_name = Some ''Initech''\<rparr>],
                   employees = []\<rparr>)"
  by (simp add: handler_defs example_defs)

lemma staff_query_companies:
  "query_companies_in staff_lib (company_names_of (example_table example_rows))
     (SessionLocal \<lparr>companies = [\<lparr>c_id = 1, c_company_name = Some ''Acme''\<rparr>,
                                 \<lparr>c_id = 2, c_company_name = Some ''Initech''\<rparr>],
                    employees = ([] :: int employee list)\<rparr>) =
   Inr [\<lparr>c_id = 1, c_company_name = Some ''Acme''\<rparr>,
        \<lparr>c_id = 2, c_company_name = Some ''Initech''\<rparr>]"
  by (simp add: handler_defs example_defs)

lemma null_name_persist_companies:
  "persist_companies null_name_lib
     (company_names_of (example_table [example_row (IntCell 1) NaN (IntCell 100) NaN]))
     (SessionLocal empty_store) =
   (Inr [NaN],
    SessionLocal \<lparr>companies = [\<lparr>c_id = 1, c_company_name = None\<rparr>], employees = []\<rparr>)"
  by (simp add: handler_defs example_defs null_name_lib_def)

lemma null_name_query_companies:
  "query_companies_in null_name_lib
     (company_names_of (example_table [example_row (IntCell 1) NaN (IntCell 100) NaN]))
     (SessionLocal \<lparr>companies = [\<lparr>c_id = 1, c_company_name = None\<rparr>],
                    employees = ([] :: int employee list)\<rparr>) =
   Inr []"
  by (simp add: handler_defs example_defs null_name_lib_def)

text \<open>
  C5, amended. Once the insertion and commit of the companies (lines 95 to 99) and the
  second query (line 102) have succeeded, the company name of a row is a key of the
  dictionary built at line 103 exactly when the cell is a string: for a string the
  lookup of line 116 does not fail, and for an empty cell or a number it raises
  \<^verbatim>\<open>KeyError\<close>.
\<close>

theorem company_lookup_succeeds:
  assumes pc: "persist_companies lib (company_names_of df) (SessionLocal db) =
                 (Inr new_companies, s)"
    and q: "query_companies_in lib (company_names_of df) s = Inr all_companies"
    and row: "row \<in> set (rows df)"
  shows "((\<exists>name. row ''COMPANY_NAME'' = StrCell name) \<longrightarrow>
            (\<exists>i. lookup_company (name_to_id all_companies) (row ''COMPANY_NAME'') = Inr i))
       \<and> ((\<forall>name. row ''COMPANY_NAME'' \<noteq> StrCell name) \<longrightarrow>
            lookup_company (name_to_id all_companies) (row ''COMPANY_NAME'') = Inl KeyError)"
proof (intro conjI impI)
  assume "\<forall>name. row ''COMPANY_NAME'' \<noteq> StrCell name"
  then show "lookup_company (name_to_id all_companies) (row ''COMPANY_NAME'') = Inl KeyError"
    by (cases "row ''COMPANY_NAME''") (simp_all add: lookup_company_def)
next
  assume "\<exists>name. row ''COMPANY_NAME'' = StrCell name"
  then obtain nm where nm: "row ''COMPANY_NAME'' = StrCell nm" by blast
  define names where "names = company_names_of df"
  define s0 where "s0 = SessionLocal db"
  from row have "row ''COMPANY_NAME'' \<in> set names"
    by (simp add: names_def set_company_names_of)
  with nm have mem: "StrCell nm \<in> set names" by simp
  from pc obtain existing u s1 where
    q0: "query_companies_in lib names s0 = Inr existing" and
    new: "new_companies =
            filter (\<lambda>name. \<not> name_in name (set (map c_company_name existing))) names" and
    b: "bulk_save_companies lib new_companies s0 = (Inr u, s1)" and
    s: "s = commit s1"
    unfolding names_def s0_def
    by (auto simp: persist_companies_def Let_def split: sum.splits prod.splits)
  from bulk_save_companies_extends[OF b] obtain added where
    added: "companies (working s1) = companies (working s0) @ added" by blast
  have stored: "Some nm \<in> set (map c_company_name (companies (working s1)))"
  proof (cases "Some nm \<in> set (map c_company_name existing)")
    case True
    with query_companies_in_subset[OF q0]
    have "Some nm \<in> set (map c_company_name (companies (working s0)))" by auto
    with added show ?thesis by simp
  next
    case False
    with mem new have "StrCell nm \<in> set new_companies" by simp
    from bulk_save_companies_inserted[OF b this] show ?thesis by simp
  qed
  have "working s = working s1" using s by (simp add: commit_def)
  with stored obtain c where
    c: "c \<in> set (companies (working s))" "c_company_name c = Some nm"
    by auto
  from query_companies_in_Inr[OF q] obtain vs where
    vs: "collect (bind_name lib) names = Inr vs" and
    all: "all_companies =
            filter (\<lambda>c. c_company_name c \<noteq> None \<and> c_company_name c \<in> set vs)
              (companies (working s))"
    unfolding names_def by blast
  have "bind_name lib (StrCell nm) = Inr (Some nm)" by simp
  from collect_Inr_image[OF vs mem this] have "Some nm \<in> set vs" .
  with c all have "c \<in> set all_companies" by simp
  from name_to_id_defined[OF this] c(2) obtain i where
    "name_to_id all_companies (Some nm) = Some i" by auto
  with nm show "\<exists>i. lookup_company (name_to_id all_companies) (row ''COMPANY_NAME'') = Inr i"
    by (simp add: lookup_company_def)
qed

theorem company_lookup_succeeds_witness:
  "(\<exists>i. lookup_company
          (name_to_id [\<lparr>c_id = 1, c_company_name = Some ''Acme''\<rparr>,
                       \<lparr>c_id = 2, c_company_name = Some ''Initech''\<rparr>])
          ((example_rows ! 1) ''COMPANY_NAME'') = Inr i)
   \<and> lookup_company (name_to_id [])
         (example_row (IntCell 1) (NaN :: int cell) (IntCell 100) NaN ''COMPANY_NAME'') =
       Inl KeyError"
proof
  have mem: "example_rows ! 1 \<in> set (rows (example_table example_rows))"
    by (simp add: example_table_def example_rows_def)
  have str: "\<exists>name. (example_rows ! 1) ''COMPANY_NAME'' = StrCell name"
    by (simp add: example_rows_def example_row_def)
  from company_lookup_succeeds [OF staff_persist_companies staff_query_companies mem]
  have "(\<exists>name. (example_rows ! 1) ''COMPANY_NAME'' = StrCell name) \<longrightarrow>
          (\<exists>i. lookup_company
                 (name_to_id [\<lparr>c_id = 1, c_company_name = Some ''Acme''\<rparr>,
                              \<lparr>c_id = 2, c_company_name = Some ''Initech''\<rparr>])
                 ((example_rows ! 1) ''COMPANY_NAME'') = Inr i)"
    by (rule conjunct1)
  from mp [OF this str]
  show "\<exists>i. lookup_company
          (name_to_id [\<lparr>c_id = 1, c_company_name = Some ''Acme''\<rparr>,
                       \<lparr>c_id = 2, c_company_name = Some ''Initech''\<rparr>])
          ((example_rows ! 1) ''COMPANY_NAME'') = Inr i" .
next
  let ?row = "example_row (IntCell 1) (NaN :: int cell) (IntCell 100) NaN"
  have mem: "?row \<in> set (rows (example_table [?row]))"
    by (simp add: example_table_def)
  have nostr: "\<forall>name. ?row ''COMPANY_NAME'' \<noteq> StrCell name"
    by (simp add: example_row_def)
  from company_lookup_succeeds [OF null_name_persist_companies null_name_query_companies mem]
  have "(\<forall>name. ?row ''COMPANY_NAME'' \<noteq> StrCell name) \<longrightarrow>
          lookup_company (name_to_id []) (?row ''COMPANY_NAME'') = Inl KeyError"
    by (rule conjunct2)
  from mp [OF this nostr]
  show "lookup_company (name_to_id []) (?row ''COMPANY_NAME'') = Inl KeyError" .
qed

section \<open>Uploading a file again\<close>

lemma query_companies_in_cong:
  "companies (working s) = companies (working s') \<Longrightarrow>
     query_companies_in lib ns s = query_companies_in lib ns s'"
  by (simp add: query_companies_in_def split: sum.splits)

lemma upload_Inr_checks:
  assumes "upload_employees lib file db = (Inr r, db')"
  shows "(endswith (filename file) ''.xlsx'' \<or> endswith (filename file) ''.csv'')
       \<and> (\<exists>df. read_file lib file = Inr df
              \<and> list_all (\<lambda>col. col \<in> set (columns df)) required_columns)"
  using assms
  by (auto simp: upload_employees_def split: if_splits sum.splits prod.splits)

lemma upload_employees_checked:
  assumes "endswith (filename file) ''.xlsx'' \<or> endswith (filename file) ''.csv''"
    and "read_file lib file = Inr df"
    and "list_all (\<lambda>col. col \<in> set (columns df)) required_columns"
  shows "upload_employees lib file db =
           (case persist lib df (SessionLocal db) of
              (Inr response, s) \<Rightarrow> (Inr response, close s)
            | (Inl e, s) \<Rightarrow> (Inl (HTTPException 500 (DatabaseError e)), close (rollback s)))"
  using assms by (simp add: upload_employees_def)

lemma name_to_id_Some:
  "name_to_id cs v = Some i \<Longrightarrow> v \<in> set (map c_company_name cs)"
  unfolding name_to_id_def by (drule map_of_SomeD) auto

lemma persist_unfold:
  "persist lib df s =
     (case persist_companies lib (company_names_of df) s of
        (Inl e, s1) \<Rightarrow> (Inl e, s1)
      | (Inr new_companies, s1) \<Rightarrow>
          persist_employees lib df (company_names_of df) new_companies s1)"
  by (simp add: persist_def Let_def)

text \<open>
  C2, as the claim states it, fails: the file of \<open>staff_lib\<close> has three rows and is
  ingested on the empty store. The second upload of the same file creates no company,
  builds the same three employees, and the insertion of the first one violates the
  unique constraint of \<^verbatim>\<open>employee_id\<close> (line 28): the handler answers 500 and the
  employees table keeps its three rows.
\<close>

theorem reupload_fails:
  "fst (upload_employees staff_lib example_file
         (snd (upload_employees staff_lib example_file empty_store))) =
     Inl (HTTPException 500 (DatabaseError IntegrityError))
   \<and> length (employees (snd (upload_employees staff_lib example_file
         (snd (upload_employees staff_lib example_file empty_store))))) = 3"
  unfolding staff_upload by (simp add: handler_defs example_defs Let_def)

text \<open>
  C2, amended. After a successful upload of a file, the upload of the same file on the
  resulting store creates no company. When the file has at least one row the request
  is rejected with status 500 by the unique constraint on the employee number, and the
  store is unchanged; when the file has no row the request succeeds with
  \<^verbatim>\<open>companies_created == 0\<close> and \<^verbatim>\<open>employees_created == 0\<close>, and the store is
  unchanged as well.
\<close>

theorem reupload_rejected:
  assumes first: "upload_employees lib file db = (Inr r, db1)"
    and rd: "read_file lib file = Inr df"
  shows "upload_employees lib file db1 =
           (if rows df = []
            then (Inr \<lparr>message = ''Data uploaded successfully.'', companies_created = 0,
                       employees_created = 0\<rparr>, db1)
            else (Inl (HTTPException 500 (DatabaseError IntegrityError)), db1))"
proof -
  define names where "names = company_names_of df"
  define s0 where "s0 = SessionLocal db1"
  have names_set: "set names = (\<lambda>row. row ''COMPANY_NAME'') ` set (rows df)"
    by (simp add: names_def set_company_names_of)
  from upload_Inr_checks[OF first] rd have
    ext: "endswith (filename file) ''.xlsx'' \<or> endswith (filename file) ''.csv''" and
    cols: "list_all (\<lambda>col. col \<in> set (columns df)) required_columns"
    by auto
  from upload_Inr[OF first] rd obtain new s1 all1 emps ids u s2 where
    q1: "query_companies_in lib names s1 = Inr all1" and
    c1: "collect (new_Employee lib (name_to_id all1)) (rows df) = Inr emps" and
    b1: "bulk_save_employees emps s1 = (Inr u, s2)" and
    ids: "length ids = length emps" and
    es: "employees db1 = employees db @ map2 employee_row ids emps" and
    cs: "companies db1 = companies (working s1)"
    unfolding names_def by auto
  have w0: "working s0 = db1" and c0: "committed s0 = db1"
    by (simp_all add: s0_def SessionLocal_def)
  have commit0: "commit s0 = s0"
    by (simp add: s0_def SessionLocal_def commit_def)
  from cs w0 have "companies (working s0) = companies (working s1)" by simp
  from query_companies_in_cong[OF this] q1
  have q2: "query_companies_in lib names s0 = Inr all1" by simp
  have known: "name_in n (set (map c_company_name all1))" if n: "n \<in> set names" for n
  proof -
    from n names_set obtain row where row: "row \<in> set (rows df)" "n = row ''COMPANY_NAME''"
      by auto
    from collect_Inr_member[OF c1 row(1)] obtain e where
      "new_Employee lib (name_to_id all1) row = Inr e" by blast
    from lookup_company_Inr[OF new_Employee_Inr(5)[OF this]] row(2) obtain s i where
      s: "n = StrCell s" "name_to_id all1 (Some s) = Some i" by auto
    from name_to_id_Some[OF s(2)] s(1) show ?thesis by simp
  qed
  then have "filter (\<lambda>name. \<not> name_in name (set (map c_company_name all1))) names = []"
    by (simp add: filter_empty_conv)
  with q2 commit0 have pc2: "persist_companies lib names s0 = (Inr [], s0)"
    by (simp add: persist_companies_def Let_def)
  from collect_Inr_length[OF c1] have len: "length emps = length (rows df)" .
  have pe2: "persist_employees lib df names [] s0 =
      (if rows df = []
       then (Inr \<lparr>message = ''Data uploaded successfully.'', companies_created = 0,
                  employees_created = 0\<rparr>, s0)
       else (Inl IntegrityError, s0))"
  proof (cases emps)
    case Nil
    with len have "rows df = []" by simp
    with Nil q2 c1 commit0 show ?thesis
      by (simp add: persist_employees_def)
  next
    case (Cons n ns)
    with len have ne: "rows df \<noteq> []" by auto
    from Cons ids obtain i ids' where ids': "ids = i # ids'" by (cases ids) auto
    from b1 Cons bulk_save_employees_first_fits[of n ns s1 u s2]
    have fits: "int64 (n_employee_id n)"
      "case n_manager_id n of None \<Rightarrow> True | Some i \<Rightarrow> int64 i"
      "case n_department_id n of None \<Rightarrow> True | Some i \<Rightarrow> int64 i"
      by simp_all
    from es Cons ids' have "employee_row i n \<in> set (employees db1)" by simp
    then have "e_employee_id (employee_row i n) \<in> set (map e_employee_id (employees db1))"
      by (rule imageI[of _ _ e_employee_id, simplified image_set[symmetric]] |
          simp only: set_map image_eqI)
    then have dup: "Some (n_employee_id n) \<in> set (map e_employee_id (employees (working s0)))"
      by (simp add: employee_row_def w0)
    from fits dup have "insert_employee n s0 = (Inl IntegrityError, s0)"
      by (simp add: insert_employee_def Let_def)
    then have "bulk_save_employees emps s0 = (Inl IntegrityError, s0)"
      using Cons by simp
    with q2 c1 ne show ?thesis
      by (simp add: persist_employees_def)
  qed
  from pc2 pe2 have p2: "persist lib df s0 =
      (if rows df = []
       then (Inr \<lparr>message = ''Data uploaded successfully.'', companies_created = 0,
                  employees_created = 0\<rparr>, s0)
       else (Inl IntegrityError, s0))"
    by (simp add: persist_unfold names_def)
  have "close s0 = db1" "close (rollback s0) = db1"
    by (simp_all add: close_def rollback_def c0)
  with p2 upload_employees_checked[OF ext rd cols, of db1] show ?thesis
    by (simp add: s0_def)
qed

theorem reupload_rejected_witness:
  "\<exists>r db1. upload_employees staff_lib example_file empty_store = (Inr r, db1)
     \<and> upload_employees staff_lib example_file db1 =
         (Inl (HTTPException 500 (DatabaseError IntegrityError)), db1)"
proof -
  have ne: "rows (example_table example_rows) \<noteq> []"
    by (simp add: example_table_def example_rows_def)
  from reupload_rejected [OF staff_upload staff_read] ne staff_upload
  show ?thesis by simp
qed

section \<open>Failures of the listing handler\<close>

text \<open>
  C4. The claim: for every store the listing succeeds, and an employee whose company
  reference resolves to no company row is listed with a null \<^verbatim>\<open>company_name\<close>. The
  handler computes \<^verbatim>\<open>None\<close> for such an employee (line 147), but \<^verbatim>\<open>EmployeeResponse\<close>
  declares \<^verbatim>\<open>company_name: str\<close> (line 64), so the construction of the entry raises:
  on a store with a dangling reference, and on one with an absent reference, the
  request fails with a validation error instead of returning the entry.
\<close>

theorem listing_fails_without_company:
  "get_employees dangling_store = (Inl ValidationError, dangling_store)
   \<and> get_employees absent_store = (Inl ValidationError, absent_store)"
  by (simp add: handler_defs dangling_store_def absent_store_def example_employee_def)

text \<open>
  C7. The claim: after a successfully ingested file, the listing returns one entry per
  ingested row, with the company name of the row. The file of \<open>no_salary_lib\<close> has one
  row with an empty \<^verbatim>\<open>SALARY\<close> cell: \<^verbatim>\<open>float\<close> of the cell is NaN, the upload succeeds
  and the store holds \<^verbatim>\<open>NULL\<close> for the salary. \<^verbatim>\<open>EmployeeResponse\<close> declares
  \<^verbatim>\<open>salary: float\<close> (line 61), so the listing that follows raises and returns no entry.
\<close>

theorem listing_fails_after_upload:
  "fst (upload_employees no_salary_lib example_file empty_store) =
     Inr \<lparr>message = ''Data uploaded successfully.'', companies_created = 1,
          employees_created = 1\<rparr>
   \<and> fst (get_employees (snd (upload_employees no_salary_lib example_file empty_store))) =
       Inl ValidationError"
  by (simp add: handler_defs example_defs no_salary_lib_def Let_def)

section \<open>The listing after an upload\<close>

text \<open>
  What does hold of the listing after an upload: the primary keys stay distinct, so
  the identifier an employee stores resolves to the company of its row.
\<close>

lemma fold_max_ge: "(i::int) \<le> fold max ids i \<and> (\<forall>j\<in>set ids. j \<le> fold max ids i)"
proof (induction ids arbitrary: i)
  case Nil
  then show ?case by simp
next
  case (Cons k ids)
  from Cons.IH[of "max k i"] show ?case by auto
qed

lemma next_id_fresh: "next_id ids \<notin> set ids"
proof (cases ids)
  case Nil
  then show ?thesis by simp
next
  case (Cons i rest)
  from fold_max_ge[of i rest] have "\<forall>j\<in>set ids. j < next_id ids"
    using Cons by auto
  then show ?thesis by auto
qed

lemma insert_company_ids_distinct:
  assumes "insert_company v s = (r, s')" and "distinct (map c_id (companies (working s)))"
  shows "distinct (map c_id (companies (working s')))"
  using assms next_id_fresh[of "map c_id (companies (working s))"]
  by (auto simp: insert_company_def Let_def split: if_splits)

lemma bulk_save_companies_ids_distinct:
  "bulk_save_companies lib names s = (r, s') \<Longrightarrow>
   distinct (map c_id (companies (working s))) \<Longrightarrow>
     distinct (map c_id (companies (working s')))"
proof (induction names arbitrary: s)
  case Nil
  then show ?case by simp
next
  case (Cons name names)
  show ?case
  proof (cases "bind_name lib name")
    case (Inl e)
    with Cons.prems show ?thesis by simp
  next
    case (Inr v)
    obtain r1 s1 where ins: "insert_company v s = (r1, s1)" by (cases "insert_company v s")
    from insert_company_ids_distinct[OF ins Cons.prems(2)]
    have d1: "distinct (map c_id (companies (working s1)))" .
    show ?thesis
    proof (cases r1)
      case (Inl e)
      with ins Inr Cons.prems(1) d1 show ?thesis by simp
    next
      case r1: (Inr u)
      with ins Inr Cons.prems(1) have "bulk_save_companies lib names s1 = (r, s')" by simp
      from Cons.IH[OF this d1] show ?thesis .
    qed
  qed
qed

lemma persist_companies_ids_distinct:
  assumes "persist_companies lib names s = (Inr new, s')"
    and "distinct (map c_id (companies (working s)))"
  shows "distinct (map c_id (companies (working s')))"
  using assms
  by (auto simp: persist_companies_def Let_def commit_def split: sum.splits prod.splits
           dest: bulk_save_companies_ids_distinct)

lemma find_by_id:
  assumes "distinct (map c_id cs)" and "c \<in> set cs"
  shows "find (\<lambda>c'. Some (c_id c') = Some (c_id c)) cs = Some c"
  using assms
proof (induction cs)
  case Nil
  then show ?case by simp
next
  case (Cons a cs)
  then show ?case by (cases "a = c") force+
qed

lemma find_append_Some:
  "find P xs = Some x \<Longrightarrow> find P (xs @ ys) = Some x"
  by (induction xs) auto

lemma collect_append:
  "collect f xs = Inr as \<Longrightarrow> collect f ys = Inr bs \<Longrightarrow> collect f (xs @ ys) = Inr (as @ bs)"
  by (induction xs arbitrary: as) (auto split: sum.splits)

lemma collect_map2:
  "length is = length ns \<Longrightarrow> \<forall>i n. n \<in> set ns \<longrightarrow> (\<exists>y. f (g i n) = Inr y \<and> P n y) \<Longrightarrow>
     \<exists>ys. collect f (map2 g is ns) = Inr ys \<and> list_all2 P ns ys"
proof (induction "is" ns rule: list_induct2)
  case Nil
  then show ?case by simp
next
  case (Cons i "is" n ns)
  from Cons.prems obtain y where y: "f (g i n) = Inr y" "P n y" by auto
  from Cons.IH Cons.prems obtain ys where
    "collect f (map2 g is ns) = Inr ys" "list_all2 P ns ys" by auto
  with y show ?case by auto
qed

lemma EmployeeResponse_Inl_company:
  "EmployeeResponse i fn ln pn sal m d None = Inl ValidationError"
  by (simp add: EmployeeResponse_def split: option.splits)

lemma employee_entry_Inr_company:
  assumes "employee_entry s emp = Inr y"
  shows "\<exists>c. find (\<lambda>c. Some (c_id c) = e_company_id emp) (companies (working s)) = Some c
            \<and> c_company_name c = Some (r_company_name y)"
  using assms
  by (auto simp: employee_entry_def query_company_by_id_def EmployeeResponse_def Let_def
           split: option.splits)

lemma employee_entry_cong:
  assumes "find (\<lambda>c. Some (c_id c) = e_company_id emp) (companies (working s)) =
           find (\<lambda>c. Some (c_id c) = e_company_id emp) (companies (working s'))"
  shows "employee_entry s emp = employee_entry s' emp"
  using assms by (simp add: employee_entry_def query_company_by_id_def)

lemma collect_Inr_preimage:
  "collect f xs = Inr ys \<Longrightarrow> y \<in> set ys \<Longrightarrow> \<exists>x\<in>set xs. f x = Inr y"
  by (induction xs arbitrary: ys) (auto split: sum.splits)

lemma query_companies_in_ids_distinct:
  "query_companies_in lib ns s = Inr cs \<Longrightarrow> distinct (map c_id (companies (working s))) \<Longrightarrow>
     distinct (map c_id cs)"
  by (auto simp: query_companies_in_def distinct_map_filter split: if_splits sum.splits)

lemma name_to_id_pair:
  "name_to_id cs v = Some i \<Longrightarrow> \<exists>c\<in>set cs. c_company_name c = v \<and> c_id c = i"
  unfolding name_to_id_def by (drule map_of_SomeD) auto

lemma name_to_id_inj:
  assumes "distinct (map c_id cs)"
    and "name_to_id cs v = Some i" and "name_to_id cs w = Some i"
  shows "v = w"
proof -
  from name_to_id_pair[OF assms(2)] obtain c where
    c: "c \<in> set cs" "c_company_name c = v" "c_id c = i" by blast
  from name_to_id_pair[OF assms(3)] obtain c' where
    c': "c' \<in> set cs" "c_company_name c' = w" "c_id c' = i" by blast
  from assms(1) have "inj_on c_id (set cs)" by (simp add: distinct_map)
  with c c' have "c = c'" by (auto dest: inj_onD)
  with c c' show ?thesis by simp
qed

text \<open>
  After a successful upload in which no salary is NaN, on a store with distinct
  primary keys of companies whose employees are all listed, the listing is the old
  listing followed by one entry per row of the file, each with the company name of
  its row.
\<close>

lemma listing_after_upload:
  assumes up: "upload_employees lib file db = (Inr r, db')"
    and rd: "read_file lib file = Inr df"
    and keys: "distinct (map c_id (companies db))"
    and old: "fst (get_employees db) = Inr old_entries"
    and sal: "\<forall>row\<in>set (rows df). py_float lib (row ''SALARY'') \<noteq> Inr None"
  shows "\<exists>new_entries.
           fst (get_employees db') = Inr (old_entries @ new_entries)
         \<and> length new_entries = length (rows df)
         \<and> (\<forall>i<length (rows df).
               (rows df ! i) ''COMPANY_NAME'' = StrCell (r_company_name (new_entries ! i)))"
proof -
  define names where "names = company_names_of df"
  define s' where "s' = SessionLocal db'"
  define s where "s = SessionLocal db"
  from upload_Inr[OF up] rd obtain new s1 all1 emps ids where
    pc: "persist_companies lib names (SessionLocal db) = (Inr new, s1)" and
    q1: "query_companies_in lib names s1 = Inr all1" and
    c1: "collect (new_Employee lib (name_to_id all1)) (rows df) = Inr emps" and
    ids: "length ids = length emps" and
    es: "employees db' = employees db @ map2 employee_row ids emps" and
    cs: "companies db' = companies (working s1)"
    unfolding names_def by auto
  from persist_companies_Inr(3)[OF pc] cs obtain added where
    added: "companies db' = companies db @ added"
    by (auto simp: SessionLocal_def)
  from persist_companies_ids_distinct[OF pc] keys cs
  have keys': "distinct (map c_id (companies db'))"
    by (simp add: SessionLocal_def)
  from query_companies_in_subset[OF q1] cs
  have sub: "set all1 \<subseteq> set (companies db')" by simp
  have ws: "working s = db" "working s' = db'"
    by (simp_all add: s_def s'_def SessionLocal_def)
  from old have old_c: "collect (employee_entry s) (employees db) = Inr old_entries"
    by (simp add: get_employees_def Let_def s_def SessionLocal_def)
  have same: "employee_entry s' emp = employee_entry s emp" if "emp \<in> set (employees db)" for emp
  proof -
    from collect_Inr_member[OF old_c that] obtain y where "employee_entry s emp = Inr y" by blast
    from employee_entry_Inr_company[OF this] ws obtain c where
      "find (\<lambda>c. Some (c_id c) = e_company_id emp) (companies db) = Some c" by auto
    from find_append_Some[OF this, of added] this added ws
    show ?thesis by (intro employee_entry_cong) simp
  qed
  then have "collect (employee_entry s') (employees db) = collect (employee_entry s) (employees db)"
    by (intro collect_cong) simp
  with old_c have old_c': "collect (employee_entry s') (employees db) = Inr old_entries" by simp
  have each: "\<exists>y. employee_entry s' (employee_row i n) = Inr y
                 \<and> name_to_id all1 (Some (r_company_name y)) = Some (n_company_id n)"
    if n: "n \<in> set emps" for i n
  proof -
    from collect_Inr_preimage[OF c1 n] obtain row where
      row: "row \<in> set (rows df)" "new_Employee lib (name_to_id all1) row = Inr n"
      by blast
    from new_Employee_Inr(2)[OF row(2)] sal row(1) obtain f where f: "n_salary n = Some f"
      by (cases "n_salary n") auto
    from lookup_company_Inr[OF new_Employee_Inr(5)[OF row(2)]] obtain nm where
      nm: "row ''COMPANY_NAME'' = StrCell nm" "name_to_id all1 (Some nm) = Some (n_company_id n)"
      by blast
    from name_to_id_pair[OF nm(2)] obtain c where
      c: "c \<in> set all1" "c_company_name c = Some nm" "c_id c = n_company_id n"
      by blast
    with sub have "c \<in> set (companies db')" by auto
    from find_by_id[OF keys' this] c(3)
    have "find (\<lambda>c'. Some (c_id c') = Some (n_company_id n)) (companies db') = Some c" by simp
    with c(2) f ws nm(2) show ?thesis
      by (simp add: employee_entry_def query_company_by_id_def EmployeeResponse_def
            employee_row_def lookup_company_def)
  qed
  from collect_map2[OF ids, of "employee_entry s'" employee_row
      "\<lambda>n y. name_to_id all1 (Some (r_company_name y)) = Some (n_company_id n)"]
    each
  obtain new_entries where
    new_c: "collect (employee_entry s') (map2 employee_row ids emps) = Inr new_entries" and
    rel: "list_all2 (\<lambda>n y. name_to_id all1 (Some (r_company_name y)) = Some (n_company_id n))
            emps new_entries"
    by blast
  from collect_append[OF old_c' new_c] es ws
  have listing: "fst (get_employees db') = Inr (old_entries @ new_entries)"
    by (simp add: get_employees_def Let_def s'_def SessionLocal_def)
  from collect_Inr_length[OF c1] have len: "length emps = length (rows df)" .
  from rel have len2: "length new_entries = length emps" by (simp add: list_all2_lengthD)
  from query_companies_in_ids_distinct[OF q1] keys' cs
  have keys1: "distinct (map c_id all1)" by simp
  have "(rows df ! i) ''COMPANY_NAME'' = StrCell (r_company_name (new_entries ! i))"
    if i: "i < length (rows df)" for i
  proof -
    from collect_Inr_nth[OF c1 i]
    have "new_Employee lib (name_to_id all1) (rows df ! i) = Inr (emps ! i)" .
    from lookup_company_Inr[OF new_Employee_Inr(5)[OF this]] obtain nm where
      nm: "(rows df ! i) ''COMPANY_NAME'' = StrCell nm"
          "name_to_id all1 (Some nm) = Some (n_company_id (emps ! i))"
      by blast
    from i len have "i < length emps" by simp
    from list_all2_nthD[OF rel this]
    have "name_to_id all1 (Some (r_company_name (new_entries ! i))) = Some (n_company_id (emps ! i))" .
    from name_to_id_inj[OF keys1 nm(2) this] nm(1) show ?thesis by simp
  qed
  with listing len len2 show ?thesis by auto
qed

lemma staff_listing:
  "map r_company_name
     (case fst (get_employees (snd (upload_employees staff_lib example_file empty_store))) of
        Inr entries \<Rightarrow> entries | Inl e \<Rightarrow> []) =
   [''Acme'', ''Initech'', ''Acme'']"
  unfolding staff_upload by (simp add: handler_defs)

section \<open>The limit on bound variables\<close>

text \<open>
  A file with more distinct company names than the store lets one statement bind is
  answered with status 500 at the first query, and the store is unchanged.
\<close>

lemma upload_too_many_names:
  assumes "endswith (filename file) ''.xlsx'' \<or> endswith (filename file) ''.csv''"
    and "read_file lib file = Inr df"
    and "list_all (\<lambda>col. col \<in> set (columns df)) required_columns"
    and "sqlite_max_variables lib < length (company_names_of df)"
  shows "upload_employees lib file db =
           (Inl (HTTPException 500 (DatabaseError OperationalError)), db)"
proof -
  from assms(4)
  have "query_companies_in lib (company_names_of df) (SessionLocal db) = Inl OperationalError"
    by (simp add: query_companies_in_def)
  then have "persist lib df (SessionLocal db) = (Inl OperationalError, SessionLocal db)"
    by (simp add: persist_unfold persist_companies_def)
  with upload_employees_checked [OF assms(1,2,3), of db] show ?thesis
    by (simp add: close_def rollback_def SessionLocal_def)
qed

end
